theory Spec2Isabelle
  imports Complex_Main "HOL-Library.Sublist" "HOL-Library.Multiset"
begin

section \<open>Python values\<close>

text \<open>
  A Python \<open>str\<close> is modelled as a HOL \<open>string\<close>, the list of its characters. HOL
  characters are 8 bits wide: the development is exact for ASCII text (all configured
  category names and keywords are ASCII), and the emoji of the source's literals are
  written as their UTF-8 bytes. \<open>lower\<close> and \<open>is_space\<close> act on the ASCII range.

  A Python \<open>float\<close> is either a number or NaN. Every ordered comparison with NaN is
  False. Numbers are taken as the reals they denote; infinities and the rounding of
  arithmetic are not modelled.
\<close>

datatype pyfloat = Num real | NaN

fun float_ge :: "pyfloat \<Rightarrow> pyfloat \<Rightarrow> bool" where
  "float_ge (Num a) (Num b) = (b \<le> a)"
| "float_ge _ _ = False"

fun float_le :: "pyfloat \<Rightarrow> pyfloat \<Rightarrow> bool" where
  "float_le (Num a) (Num b) = (a \<le> b)"
| "float_le _ _ = False"

fun float_lt :: "pyfloat \<Rightarrow> pyfloat \<Rightarrow> bool" where
  "float_lt (Num a) (Num b) = (a < b)"
| "float_lt _ _ = False"

fun float_sub :: "pyfloat \<Rightarrow> pyfloat \<Rightarrow> pyfloat" where
  "float_sub (Num a) (Num b) = Num (a - b)"
| "float_sub _ _ = NaN"

text \<open>Truthiness of a float: only zero is falsy (NaN is truthy).\<close>

fun float_truthy :: "pyfloat \<Rightarrow> bool" where
  "float_truthy (Num a) = (a \<noteq> 0)"
| "float_truthy NaN = True"

text \<open>
  The exceptions the modelled code can meet: a missing dictionary key, an index out of
  range, and any exception raised inside an external library call.
\<close>

datatype py_error = KeyError | IndexError | ExternalError

definition lower_char :: "char \<Rightarrow> char" where
  "lower_char c =
     (let n = of_char c :: nat in if 65 \<le> n \<and> n \<le> 90 then char_of (n + 32) else c)"

definition lower :: "string \<Rightarrow> string" where
  "lower s = map lower_char s"

definition is_space :: "char \<Rightarrow> bool" where
  "is_space c = (let n = of_char c :: nat in (9 \<le> n \<and> n \<le> 13) \<or> (28 \<le> n \<and> n \<le> 32))"

text \<open>\<open>s.strip()\<close>: whitespace removed at both ends.\<close>

definition strip :: "string \<Rightarrow> string" where
  "strip s = rev (dropWhile is_space (rev (dropWhile is_space s)))"

text \<open>\<open>xs[:k]\<close>: a negative \<open>k\<close> counts from the end.\<close>

definition slice_to :: "'a list \<Rightarrow> int \<Rightarrow> 'a list" where
  "slice_to xs k = (if 0 \<le> k then take (nat k) xs else take (nat (int (length xs) + k)) xs)"

text \<open>
  \<open>xs.sort(reverse=True, key=f)\<close> on float keys: a stable sort into descending key
  order that compares keys with \<open><\<close> only. Elements with equal keys keep their
  original relative order.
\<close>

fun insort_reverse :: "('a \<Rightarrow> pyfloat) \<Rightarrow> 'a \<Rightarrow> 'a list \<Rightarrow> 'a list" where
  "insort_reverse key x [] = [x]"
| "insort_reverse key x (y # ys) =
     (if float_lt (key x) (key y) then y # insort_reverse key x ys else x # y # ys)"

fun sort_reverse :: "('a \<Rightarrow> pyfloat) \<Rightarrow> 'a list \<Rightarrow> 'a list" where
  "sort_reverse key [] = []"
| "sort_reverse key (x # xs) = insort_reverse key x (sort_reverse key xs)"


section \<open>Document processor (utils/document\_processor.py)\<close>

text \<open>
  The file system seen by \<open>_process_folder\<close>: a folder path that does not exist maps to
  \<open>None\<close>; an existing one maps to its \<open>*.txt\<close> files in glob order, each with its
  name and its content (\<open>None\<close> when opening or reading the file raises).
\<close>

type_synonym filesystem = "string \<Rightarrow> (string \<times> string option) list option"

text \<open>
  The processor holds the sentence embedder and the two configured defaults. The embedder
  is external: \<open>encode\<close> may raise (\<open>None\<close>), \<open>cos_sim\<close> is the cosine similarity of two
  embeddings as a float.
\<close>

record 'e document_processor =
  encode :: "string \<Rightarrow> 'e option"
  cos_sim :: "'e \<Rightarrow> 'e \<Rightarrow> pyfloat"
  min_similarity :: pyfloat
  max_docs :: int

type_synonym ranked_document = "pyfloat \<times> string \<times> string"

text \<open>
  The body of the loop over the text files of one folder: what the file adds to
  \<open>results\<close>. Any exception inside the \<open>try\<close> block skips the file.
\<close>

definition process_file ::
  "'e document_processor \<Rightarrow> 'e \<Rightarrow> pyfloat \<Rightarrow> string \<times> string option \<Rightarrow> ranked_document list"
where
  "process_file dp query_embedding min_sim file =
     (case snd file of
        None \<Rightarrow> []
      | Some raw \<Rightarrow>
          (let content = strip raw in
           if content = [] then []
           else
             (let filename = fst file;
                  combined_text = filename @ '' '' @ take 1000 content
              in case encode dp combined_text of
                   None \<Rightarrow> []
                 | Some doc_embedding \<Rightarrow>
                     (let similarity = cos_sim dp query_embedding doc_embedding
                      in if float_ge similarity min_sim
                         then [(similarity, filename, content)]
                         else []))))"

definition process_folder ::
  "'e document_processor \<Rightarrow> filesystem \<Rightarrow> string \<Rightarrow> 'e \<Rightarrow> pyfloat \<Rightarrow> ranked_document list"
where
  "process_folder dp fs folder_path query_embedding min_sim =
     (case fs folder_path of
        None \<Rightarrow> []
      | Some text_files \<Rightarrow> concat (map (process_file dp query_embedding min_sim) text_files))"

text \<open>
  \<open>rank_documents\<close>: the query is embedded outside any \<open>try\<close>, so a failure of the
  embedder there propagates to the caller.
\<close>

definition rank_documents ::
  "'e document_processor \<Rightarrow> filesystem \<Rightarrow> string \<Rightarrow> string list \<Rightarrow> int option \<Rightarrow>
   pyfloat option \<Rightarrow> py_error + ranked_document list"
where
  "rank_documents dp fs user_prompt folders top_k min_sim =
     (let top_k = (case top_k of None \<Rightarrow> max_docs dp | Some k \<Rightarrow> k);
          min_sim = (case min_sim of None \<Rightarrow> min_similarity dp | Some m \<Rightarrow> m)
      in case encode dp user_prompt of
           None \<Rightarrow> Inl ExternalError
         | Some query_embedding \<Rightarrow>
             (let results =
                    foldl (\<lambda>results folder.
                             results @ process_folder dp fs folder query_embedding min_sim)
                          [] folders
              in Inr (slice_to (sort_reverse fst results) top_k)))"



section \<open>Configuration (utils/config.py)\<close>

text \<open>
  The configuration dictionary, with the keys the modelled code reads. Dictionaries
  whose keys are data (\<open>category_folders\<close>, \<open>category_keywords\<close>) are association lists
  in insertion order; \<open>contact\<close>, whose keys are fixed, is a record, with
  \<open>careers_email\<close> optional because the code reads it with a default.
\<close>

record contact_info =
  sales_email :: string
  support_email :: string
  careers_email :: "string option"

record config =
  min_similarity_threshold :: pyfloat
  max_documents :: int
  min_confidence :: pyfloat
  categories :: "string list"
  category_folders :: "(string \<times> string) list"
  category_keywords :: "(string \<times> string list) list"
  company_name :: string
  company_tagline :: string
  bot_name :: string
  contact :: contact_info

text \<open>
  \<open>load_config\<close>, as a function of the three numbers it reads from the environment
  (\<open>MIN_SIMILARITY\<close>, \<open>MAX_DOCUMENTS\<close>, \<open>MIN_CONFIDENCE\<close>).
\<close>

definition load_config :: "pyfloat \<Rightarrow> int \<Rightarrow> pyfloat \<Rightarrow> config" where
  "load_config env_min_similarity env_max_documents env_min_confidence =
     \<lparr> min_similarity_threshold = env_min_similarity,
       max_documents = env_max_documents,
       min_confidence = env_min_confidence,
       categories =
         [''general information about the company'',
          ''company blog posts'',
          ''career opportunities, vacancies, and recruitment'',
          ''case studies of past projects'',
          ''services offered by the company'',
          ''success stories and client achievements'',
          ''industry-specific expertise and domain knowledge'',
          ''company policy and disclaimers''],
       category_folders =
         [(''general information about the company'', ''data/General/''),
          (''company blog posts'', ''data/Blog/''),
          (''career opportunities, vacancies, and recruitment'', ''data/Career and Vacancies/''),
          (''case studies of past projects'', ''data/Case Studies/''),
          (''services offered by the company'', ''data/Services/''),
          (''success stories and client achievements'', ''data/Success Stories/''),
          (''industry-specific expertise and domain knowledge'', ''data/Industry Expertise/''),
          (''company policy and disclaimers'', ''data/Policy and Disclaimer/'')],
       category_keywords =
         [(''general information about the company'',
             [''about the company'', ''overview'', ''mission'', ''vision'', ''culture'',
              ''contact'', ''email'', ''leadership'', ''ceo'', ''who we are'',
              ''company background'']),
          (''company blog posts'',
             [''blog'', ''insights'', ''articles'', ''write-up'']),
          (''career opportunities, vacancies, and recruitment'',
             [''vacancy'', ''vacancies'', ''openings'', ''job position'', ''job opening'',
              ''hiring'', ''hire'', ''job post'', ''recruitment'', ''career'', ''career path'',
              ''opportunities'', ''job opportunities'', ''career growth'', ''roles available'',
              ''employment'', ''work at'']),
          (''case studies of past projects'',
             [''case study'', ''case studies'', ''project example'', ''project case'',
              ''real-world project'']),
          (''services offered by the company'',
             [''services'', ''solutions'', ''offerings'', ''what you provide'',
              ''automation service'', ''AI services'', ''document processing'',
              ''consulting services'', ''rpa services'', ''domain knowledge'']),
          (''success stories and client achievements'',
             [''success story'', ''client success'', ''testimonial'', ''achievement'',
              ''result'', ''outcome'', ''benefits for client'', ''transformation'']),
          (''industry-specific expertise and domain knowledge'',
             [''industry expertise'', ''domain knowledge'', ''healthcare expertise'',
              ''insurance knowledge'', ''finance domain'', ''logistics industry'',
              ''bank'', ''health'', ''media'', ''Food'', ''beverage'', ''travel'',
              ''hospitality'', ''sector-specific knowledge'']),
          (''company policy and disclaimers'',
             [''privacy policy'', ''disclaimer'', ''terms'', ''conditions'', ''legal'',
              ''cookie policy''])],
       company_name = ''Sundew Solutions'',
       company_tagline = ''Digital First. Digital Fast.'',
       bot_name = ''Chetan'',
       contact =
         \<lparr> sales_email = ''sales@sundewsolutions.com'',
           support_email = ''support@sundewsolutions.com'',
           careers_email = Some ''careers@sundewsolutions.com'' \<rparr> \<rparr>"

text \<open>\<open>DocumentProcessor(config)\<close> with its embedder.\<close>

definition DocumentProcessor ::
  "config \<Rightarrow> (string \<Rightarrow> 'e option) \<Rightarrow> ('e \<Rightarrow> 'e \<Rightarrow> pyfloat) \<Rightarrow> 'e document_processor"
where
  "DocumentProcessor cfg embedder_encode embedder_cos_sim =
     \<lparr> encode = embedder_encode, cos_sim = embedder_cos_sim,
       min_similarity = min_similarity_threshold cfg, max_docs = max_documents cfg \<rparr>"


section \<open>Intent detector (utils/intent\_detector.py)\<close>

text \<open>
  One entry of \<open>details\<close>: a dictionary with \<open>category\<close> and \<open>method\<close>, and with
  \<open>keyword\<close> or \<open>confidence\<close> depending on the path that made it.
\<close>

record detail =
  d_category :: string
  d_keyword :: "string option"
  d_confidence :: "pyfloat option"
  d_method :: string

text \<open>The dictionary returned by \<open>detect_intents\<close>.\<close>

record intent_result =
  intent_method :: string
  intent_categories :: "string list"
  folders :: "string list"
  confidence :: pyfloat
  details :: "detail list"

text \<open>
  The zero-shot classifier is external: given the text and the candidate labels it
  returns \<open>labels\<close> and \<open>scores\<close>, or raises (\<open>None\<close>).
\<close>

type_synonym classifier = "string \<Rightarrow> string list \<Rightarrow> (string list \<times> pyfloat list) option"

definition default_category :: string where
  "default_category = ''general information about the company''"

text \<open>
  \<open>[self.category_folders[c] for c in cs]\<close>: a category without a configured folder
  raises \<open>KeyError\<close>.
\<close>

definition folders_for :: "config \<Rightarrow> string list \<Rightarrow> py_error + string list" where
  "folders_for cfg cs =
     (case those (map (map_of (category_folders cfg)) cs) of
        None \<Rightarrow> Inl KeyError
      | Some fs \<Rightarrow> Inr fs)"

text \<open>The inner loop of \<open>_detect_by_keywords\<close>: the first keyword of a category
  that occurs in the lower-cased prompt, after which the loop breaks.\<close>

fun first_keyword :: "string \<Rightarrow> string list \<Rightarrow> string option" where
  "first_keyword prompt_lower [] = None"
| "first_keyword prompt_lower (keyword # keywords) =
     (if sublist (lower keyword) prompt_lower then Some keyword
      else first_keyword prompt_lower keywords)"

definition detect_by_keywords :: "config \<Rightarrow> string \<Rightarrow> detail list" where
  "detect_by_keywords cfg user_prompt =
     (let prompt_lower = lower user_prompt in
      concat (map (\<lambda>(category, keywords).
                     case first_keyword prompt_lower keywords of
                       None \<Rightarrow> []
                     | Some keyword \<Rightarrow>
                         [\<lparr> d_category = category, d_keyword = Some keyword,
                            d_confidence = None, d_method = ''keyword'' \<rparr>])
                  (category_keywords cfg)))"

definition get_fallback_intent :: "config \<Rightarrow> py_error + intent_result" where
  "get_fallback_intent cfg =
     (case folders_for cfg [default_category] of
        Inl e \<Rightarrow> Inl e
      | Inr fs \<Rightarrow>
          Inr \<lparr> intent_method = ''fallback'',
                intent_categories = [default_category],
                folders = fs,
                confidence = Num 1,
                details = [\<lparr> d_category = default_category, d_keyword = None,
                             d_confidence = None, d_method = ''fallback'' \<rparr>] \<rparr>)"

text \<open>
  \<open>_detect_by_ml\<close>: everything up to the \<open>return\<close> runs inside \<open>try\<close>, so a raising
  classifier, an empty score list (\<open>IndexError\<close>) and a label without a folder
  (\<open>KeyError\<close>) all end in \<open>_get_fallback_intent\<close>, which runs outside the \<open>try\<close>.
\<close>

definition detect_by_ml ::
  "config \<Rightarrow> classifier \<Rightarrow> string \<Rightarrow> pyfloat \<Rightarrow> pyfloat \<Rightarrow> py_error + intent_result"
where
  "detect_by_ml cfg clf user_prompt min_conf score_margin =
     (case clf user_prompt (categories cfg) of
        None \<Rightarrow> get_fallback_intent cfg
      | Some (labels, scores) \<Rightarrow>
          (case scores of
             [] \<Rightarrow> get_fallback_intent cfg
           | top_score # _ \<Rightarrow>
               (let selected =
                      map (\<lambda>(label, score).
                             \<lparr> d_category = label, d_keyword = None,
                               d_confidence = Some score, d_method = ''ml'' \<rparr>)
                          (filter (\<lambda>(label, score).
                                     float_ge score min_conf
                                     \<and> float_le (float_sub top_score score) score_margin)
                                  (zip labels scores));
                    selected =
                      (if selected = []
                       then [\<lparr> d_category = default_category, d_keyword = None,
                                d_confidence = Some (Num 1), d_method = ''fallback'' \<rparr>]
                       else selected)
                in case folders_for cfg (map d_category selected) of
                     Inl e \<Rightarrow> get_fallback_intent cfg
                   | Inr fs \<Rightarrow>
                       Inr \<lparr> intent_method = ''ml'',
                             intent_categories = map d_category selected,
                             folders = fs,
                             confidence = top_score,
                             details = selected \<rparr>)))"

definition detect_intents ::
  "config \<Rightarrow> classifier \<Rightarrow> string \<Rightarrow> pyfloat option \<Rightarrow> pyfloat \<Rightarrow> py_error + intent_result"
where
  "detect_intents cfg clf user_prompt min_conf score_margin =
     (let min_conf = (case min_conf of None \<Rightarrow> min_confidence cfg | Some c \<Rightarrow> c);
          keyword_matches = detect_by_keywords cfg user_prompt
      in if keyword_matches \<noteq> []
         then (case folders_for cfg (map d_category keyword_matches) of
                 Inl e \<Rightarrow> Inl e
               | Inr fs \<Rightarrow>
                   Inr \<lparr> intent_method = ''keyword'',
                         intent_categories = map d_category keyword_matches,
                         folders = fs,
                         confidence = Num 1,
                         details = keyword_matches \<rparr>)
         else detect_by_ml cfg clf user_prompt min_conf score_margin)"


section \<open>Response enhancer (utils/response\_enhancer.py)\<close>

text \<open>\<open>sep.join(parts)\<close>.\<close>

fun join :: "string \<Rightarrow> string list \<Rightarrow> string" where
  "join sep [] = []"
| "join sep [x] = x"
| "join sep (x # y # zs) = x @ sep @ join sep (y # zs)"

text \<open>
  The user profile is a dictionary from strings to strings. Every read in the modelled
  code is \<open>d.get(k, '')\<close>, or \<open>d.get(k)\<close> tested for truth before \<open>d[k]\<close> is used, so
  a missing key and an empty value are read alike.
\<close>

type_synonym user_data = "(string \<times> string) list"

definition dict_get :: "user_data \<Rightarrow> string \<Rightarrow> string" where
  "dict_get d k = (case map_of d k of None \<Rightarrow> [] | Some v \<Rightarrow> v)"

text \<open>\<open>email.split('@')[1] if '@' in email else ''\<close>.\<close>

definition email_domain :: "string \<Rightarrow> string" where
  "email_domain email =
     (if CHR ''@'' \<in> set email
      then takeWhile (\<lambda>c. c \<noteq> CHR ''@'') (tl (dropWhile (\<lambda>c. c \<noteq> CHR ''@'') email))
      else [])"

definition build_user_context :: "user_data \<Rightarrow> string" where
  "build_user_context ud =
     (let context_parts =
            (if dict_get ud ''name'' \<noteq> [] then [''- User name: '' @ dict_get ud ''name''] else [])
          @ (if dict_get ud ''email'' \<noteq> []
             then [''- Email domain: '' @ email_domain (dict_get ud ''email'')] else [])
          @ (if dict_get ud ''user_type'' \<noteq> []
             then [''- User type: '' @ dict_get ud ''user_type''] else [])
          @ (if dict_get ud ''company_size'' \<noteq> []
             then [''- Company size: '' @ dict_get ud ''company_size''] else [])
          @ (if dict_get ud ''selected_service'' \<noteq> []
             then [''- Interested in: '' @ dict_get ud ''selected_service''] else [])
      in if context_parts \<noteq> [] then join ''\<newline>'' context_parts
         else ''- New user interaction'')"

text \<open>
  \<open>format_2f\<close> stands for Python's built-in formatting of a float with two decimals
  (\<open>f"{x:.2f}"\<close>).
\<close>

definition build_intent_context :: "(pyfloat \<Rightarrow> string) \<Rightarrow> intent_result \<Rightarrow> string" where
  "build_intent_context format_2f intents =
     (let context_parts =
            (if intent_categories intents \<noteq> []
             then [''- Primary topics: '' @ join '', '' (take 2 (intent_categories intents))]
             else [])
          @ (if intent_method intents \<noteq> [] then [''- Detection method: '' @ intent_method intents] else [])
          @ (if float_truthy (confidence intents)
             then [''- Confidence: '' @ format_2f (confidence intents)] else [])
      in if context_parts \<noteq> [] then join ''\<newline>'' context_parts
         else ''- General inquiry'')"

definition build_professional_prompt ::
  "config \<Rightarrow> (pyfloat \<Rightarrow> string) \<Rightarrow> string \<Rightarrow> user_data option \<Rightarrow> intent_result option \<Rightarrow> string"
where
  "build_professional_prompt cfg format_2f user_question ud intents =
     (let base_prompt =
            ''\<newline>        You are '' @ bot_name cfg
              @ '', a professional business assistant at '' @ company_name cfg @ ''.\<newline>''
            @ ''        \<newline>''
            @ ''        Your role:\<newline>''
            @ ''        - Answer user questions clearly, concisely, and accurately using company-provided data\<newline>''
            @ ''        - Maintain a helpful, professional, and business-appropriate tone\<newline>''
            @ ''        - If unsure about specific details, acknowledge limitations and offer to connect with human experts\<newline>''
            @ ''        - Always include relevant resource links when available\<newline>''
            @ ''        - Focus on providing value to the user\<newline>''
            @ ''        \<newline>''
            @ ''        Company Context:\<newline>''
            @ ''        - '' @ company_name cfg @ '': Digital transformation company\<newline>''
            @ ''        - Tagline: '' @ company_tagline cfg @ ''\<newline>''
            @ ''        - Services: AI/Automation, Custom Development, Cloud Solutions, Digital Experience\<newline>''
            @ ''        - Contact: '' @ sales_email (contact cfg) @ '' for sales, ''
              @ support_email (contact cfg) @ '' for support\<newline>''
            @ ''        '';
          base_prompt =
            (case ud of
               None \<Rightarrow> base_prompt
             | Some d \<Rightarrow>
                 if d \<noteq> []
                 then base_prompt @ ''\<newline>\<newline>User Context:\<newline>'' @ build_user_context d
                 else base_prompt);
          base_prompt =
            (case intents of
               None \<Rightarrow> base_prompt
             | Some i \<Rightarrow>
                 base_prompt @ ''\<newline>\<newline>Detected Intent:\<newline>''
                   @ build_intent_context format_2f i)
      in base_prompt @ ''\<newline>\<newline>User Question: '' @ user_question
           @ ''\<newline>\<newline>Provide a helpful, accurate response:'')"

text \<open>
  \<open>s.replace(old, new, 1)\<close>: the leftmost occurrence of \<open>old\<close> is replaced.
\<close>

fun replace_first :: "string \<Rightarrow> string \<Rightarrow> string \<Rightarrow> string" where
  "replace_first old new [] = (if old = [] then new else [])"
| "replace_first old new (c # cs) =
     (if prefix old (c # cs) then new @ drop (length old) (c # cs)
      else c # replace_first old new cs)"

definition add_personalization :: "string \<Rightarrow> user_data option \<Rightarrow> string" where
  "add_personalization response ud =
     (case ud of
        None \<Rightarrow> response
      | Some d \<Rightarrow>
          if d = [] then response
          else
            (let name = dict_get d ''name'';
                 user_type = dict_get d ''user_type'';
                 response =
                   (if name \<noteq> [] \<and> \<not> sublist (lower name) (lower response)
                    then (if prefix ''Hi'' response \<or> prefix ''Hello'' response
                          then replace_first ''Hello'' (''Hello '' @ name)
                                 (replace_first ''Hi'' (''Hi '' @ name) response)
                          else ''Hi '' @ name @ ''! '' @ response)
                    else response)
             in if user_type = ''potential_client'' \<and> \<not> sublist ''business'' (lower response)
                then response @ ''\<newline>\<newline>As a business looking for solutions, I'd be happy to discuss how we can specifically help your company grow.''
                else if user_type = ''job_seeker'' \<and> \<not> sublist ''career'' (lower response)
                then response @ ''\<newline>\<newline>Since you're interested in career opportunities, I can also share information about our company culture and current openings.''
                else response))"

text \<open>The three candidate lists of \<open>_add_contextual_ctas\<close>, one per family.\<close>

definition service_ctas :: "config \<Rightarrow> string list" where
  "service_ctas cfg =
     [[CHR 0xF0, CHR 0x9F, CHR 0x93, CHR 0x9E]
        @ '' **Ready to discuss your project?** Contact our sales team at ''
        @ sales_email (contact cfg),
      [CHR 0xF0, CHR 0x9F, CHR 0x93, CHR 0x8B]
        @ '' **Want to see similar projects?** Check out our case studies'',
      [CHR 0xF0, CHR 0x9F, CHR 0x92, CHR 0xAC]
        @ '' **Need a custom solution?** Let's schedule a consultation'']"

definition career_ctas :: "config \<Rightarrow> string list" where
  "career_ctas cfg =
     [[CHR 0xF0, CHR 0x9F, CHR 0x92, CHR 0xBC]
        @ '' **Ready to apply?** Send your resume to ''
        @ (case careers_email (contact cfg) of
             None \<Rightarrow> ''careers@sundewsolutions.com''
           | Some a \<Rightarrow> a),
      [CHR 0xF0, CHR 0x9F, CHR 0x8C, CHR 0x9F]
        @ '' **Learn about our culture:** Visit our careers page'',
      [CHR 0xF0, CHR 0x9F, CHR 0x93, CHR 0x9D]
        @ '' **Current openings:** Check our latest job postings'']"

definition case_study_ctas :: "string list" where
  "case_study_ctas =
     [[CHR 0xF0, CHR 0x9F, CHR 0x8E, CHR 0xAF]
        @ '' **Interested in similar results?** Let's discuss your requirements'',
      [CHR 0xF0, CHR 0x9F, CHR 0x93, CHR 0x88]
        @ '' **Want to see more examples?** Browse our complete case studies'',
      [CHR 0xF0, CHR 0x9F, CHR 0x92, CHR 0xA1]
        @ '' **Have a similar challenge?** Get a free consultation'']"

text \<open>
  The loop of \<open>_add_contextual_ctas\<close> over the detected categories: the first category
  that passes one of the three tests fills \<open>ctas\<close> and breaks the loop.
\<close>

fun collect_ctas :: "config \<Rightarrow> string list \<Rightarrow> string list" where
  "collect_ctas cfg [] = []"
| "collect_ctas cfg (category # later_categories) =
     (if sublist ''service'' (lower category) then service_ctas cfg
      else if sublist ''career'' (lower category) then career_ctas cfg
      else if sublist ''case'' (lower category) \<or> sublist ''success'' (lower category)
      then case_study_ctas
      else collect_ctas cfg later_categories)"

text \<open>
  The two random draws of one \<open>enhance_response\<close> call, given as inputs:
  \<open>random.choice(xs)\<close> returns an element of \<open>xs\<close>, here the one at index
  \<open>choice_draw mod len(xs)\<close>; \<open>random.random()\<close> returns \<open>random_draw\<close>.
\<close>

record rnd =
  choice_draw :: nat
  random_draw :: real

definition random_choice :: "rnd \<Rightarrow> 'a list \<Rightarrow> 'a" where
  "random_choice r xs = xs ! (choice_draw r mod length xs)"

definition add_contextual_ctas ::
  "config \<Rightarrow> rnd \<Rightarrow> string \<Rightarrow> intent_result option \<Rightarrow> user_data option \<Rightarrow> string"
where
  "add_contextual_ctas cfg r response intents ud =
     (case intents of
        None \<Rightarrow> response
      | Some i \<Rightarrow>
          (let ctas = collect_ctas cfg (intent_categories i)
           in if ctas \<noteq> []
              then response @ ''\<newline>\<newline>---\<newline>\<newline>'' @ random_choice r (take 2 ctas)
              else response))"

definition add_branding_elements ::
  "config \<Rightarrow> rnd \<Rightarrow> string \<Rightarrow> intent_result option \<Rightarrow> string"
where
  "add_branding_elements cfg r response intents =
     (let response =
            (if random_draw r < 3 / 10
             then response @ ''\<newline>\<newline>*'' @ company_name cfg @ '': ''
                    @ company_tagline cfg @ ''*''
             else response);
          cats = (case intents of None \<Rightarrow> [] | Some i \<Rightarrow> intent_categories i)
      in if \<exists>cat\<in>set cats. sublist ''service'' (lower cat)
         then response @ ''\<newline>\<newline>'' @ [CHR 0xF0, CHR 0x9F, CHR 0x92, CHR 0xA1]
                @ '' *With 8+ years of digital transformation expertise, ''
                @ company_name cfg
                @ '' has helped 100+ businesses achieve their goals.*''
         else response)"

text \<open>
  The four substitutions of \<open>_format_response\<close>. \<open>re.sub\<close> scans from the left: where
  the pattern matches it writes the replacement and goes on after the match, elsewhere
  it copies one character and moves on by one.

  \<open>re.sub(r'\n(#{1,6}\s)', r'\n\n\1', s)\<close>: a newline, one to six \<open>#\<close> and a whitespace
  character. The pattern matches exactly when the run of \<open>#\<close> after the newline has
  length 1 to 6 and is followed by whitespace.
\<close>

function sub_header :: "string \<Rightarrow> string" where
  "sub_header [] = []"
| "sub_header (c # cs) =
     (let hashes = takeWhile (\<lambda>x. x = CHR ''#'') cs;
          rest = dropWhile (\<lambda>x. x = CHR ''#'') cs
      in if c = CHR 0x0A \<and> 1 \<le> length hashes \<and> length hashes \<le> 6
            \<and> rest \<noteq> [] \<and> is_space (hd rest)
         then CHR 0x0A # CHR 0x0A # hashes @ hd rest # sub_header (tl rest)
         else c # sub_header cs)"
  by pat_completeness auto
termination
proof (relation "measure length", goal_cases)
  case 1
  show ?case by simp
next
  case (2 c cs hashes rest)
  have "length (dropWhile (\<lambda>x. x = CHR ''#'') cs) \<le> length cs"
    by (rule length_dropWhile_le)
  then show ?case using 2 by simp
next
  case (3 c cs hashes rest)
  show ?case by simp
qed

text \<open>
  \<open>re.sub(r'\n-\s', r'\n\n- ', s)\<close> and \<open>re.sub(r'\n\*\s', r'\n\n* ', s)\<close>, with the
  list marker as a parameter.
\<close>

fun sub_bullet :: "char \<Rightarrow> string \<Rightarrow> string" where
  "sub_bullet marker (a # b # c # rest) =
     (if a = CHR 0x0A \<and> b = marker \<and> is_space c
      then CHR 0x0A # CHR 0x0A # marker # CHR '' '' # sub_bullet marker rest
      else a # sub_bullet marker (b # c # rest))"
| "sub_bullet marker s = s"

text \<open>\<open>re.sub(r'\n{3,}', '\n\n', s)\<close>: a run of three or more newlines becomes two.\<close>

function sub_newlines :: "string \<Rightarrow> string" where
  "sub_newlines [] = []"
| "sub_newlines (c # cs) =
     (if c = CHR 0x0A \<and> 2 \<le> length (takeWhile (\<lambda>x. x = CHR 0x0A) cs)
      then CHR 0x0A # CHR 0x0A # sub_newlines (dropWhile (\<lambda>x. x = CHR 0x0A) cs)
      else c # sub_newlines cs)"
  by pat_completeness auto
termination
  by (relation "measure length") (auto simp: less_Suc_eq_le length_dropWhile_le)

definition format_response :: "string \<Rightarrow> string" where
  "format_response response =
     strip (sub_newlines (sub_bullet (CHR ''*'') (sub_bullet (CHR ''-'') (sub_header response))))"

definition enhance_response ::
  "config \<Rightarrow> rnd \<Rightarrow> string \<Rightarrow> intent_result option \<Rightarrow> user_data option \<Rightarrow> string"
where
  "enhance_response cfg r base_response intents ud =
     (let enhanced_response = base_response;
          enhanced_response = add_personalization enhanced_response ud;
          enhanced_response = add_contextual_ctas cfg r enhanced_response intents ud;
          enhanced_response = add_branding_elements cfg r enhanced_response intents;
          enhanced_response = format_response enhanced_response
      in enhanced_response)"


section \<open>Chat engine (app/chat\_engine.py)\<close>

definition generate_fallback_response :: "intent_result \<Rightarrow> user_data option \<Rightarrow> string" where
  "generate_fallback_response intents ud =
     (let response = ''I'd be happy to help you with information about Sundew Solutions! '';
          response =
            (case intent_categories intents of
               [] \<Rightarrow> response
             | category # _ \<Rightarrow>
                 if sublist ''service'' (lower category)
                 then response @ ''We offer comprehensive digital transformation services including AI chatbots, custom web development, and automation solutions. ''
                 else if sublist ''career'' (lower category)
                 then response @ ''We're always looking for talented individuals! Check out our careers page for current openings. ''
                 else if sublist ''case'' (lower category)
                 then response @ ''Our case studies showcase successful projects across various industries. ''
                 else response)
      in response @ ''For specific information, please contact our team at sales@sundewsolutions.com or visit our website.'')"

text \<open>
  The engine: its configuration, the classifier of its intent detector, its document
  processor, the language model (\<open>None\<close> when no API key is configured) and the
  conversation memory. The retrieval chain built around the language model is external:
  from the prompt, the matched documents and the memory it returns the reply, or raises
  (\<open>None\<close>).
\<close>

record ('e, 'm) chat_engine =
  config :: config
  intent_classifier :: classifier
  document_processor :: "'e document_processor"
  llm :: "(string \<Rightarrow> ranked_document list \<Rightarrow> 'm \<Rightarrow> string option) option"
  memory :: 'm

definition apology :: string where
  "apology = ''I apologize, but I encountered an error. Please try rephrasing your question.''"

text \<open>
  \<open>process_user_input\<close>: the whole body runs inside \<open>try\<close>, and any exception becomes
  the apology. The file system, the float formatting and the random draws of the
  enhancer are inputs.
\<close>

definition process_user_input ::
  "('e, 'm) chat_engine \<Rightarrow> filesystem \<Rightarrow> (pyfloat \<Rightarrow> string) \<Rightarrow> rnd \<Rightarrow> string \<Rightarrow>
   user_data option \<Rightarrow> string"
where
  "process_user_input eng fs format_2f r user_input ud =
     (case detect_intents (config eng) (intent_classifier eng) user_input None (Num (5 / 100)) of
        Inl e \<Rightarrow> apology
      | Inr intents \<Rightarrow>
          (case rank_documents (document_processor eng) fs user_input (folders intents)
                  (Some 3) None of
             Inl e \<Rightarrow> apology
           | Inr matched_docs \<Rightarrow>
               (case llm eng of
                  Some generate \<Rightarrow>
                    if matched_docs \<noteq> []
                    then (let enhanced_prompt =
                                build_professional_prompt (config eng) format_2f user_input ud
                                  (Some intents)
                          in case generate enhanced_prompt matched_docs (memory eng) of
                               None \<Rightarrow> apology
                             | Some response \<Rightarrow>
                                 enhance_response (config eng) r response (Some intents) ud)
                    else generate_fallback_response intents ud
                | None \<Rightarrow> generate_fallback_response intents ud)))"


section \<open>Notions used to state the properties\<close>

definition descending :: "('a \<Rightarrow> pyfloat) \<Rightarrow> 'a list \<Rightarrow> bool" where
  "descending key xs = sorted_wrt (\<lambda>a b. float_ge (key a) (key b)) xs"


text \<open>The folders of a result are the configured folders of its categories, index by index.\<close>

definition folders_follow_categories :: "config \<Rightarrow> intent_result \<Rightarrow> bool" where
  "folders_follow_categories cfg r =
     (length (intent_categories r) = length (folders r)
      \<and> (\<forall>i<length (intent_categories r).
            map_of (category_folders cfg) (intent_categories r ! i) = Some (folders r ! i)))"

text \<open>Some keyword of a \<open>category_keywords\<close> entry occurs in the utterance, case ignored.\<close>

definition keyword_hit :: "string \<Rightarrow> string \<times> string list \<Rightarrow> bool" where
  "keyword_hit user_prompt entry =
     (\<exists>keyword\<in>set (snd entry). sublist (lower keyword) (lower user_prompt))"


text \<open>
  The three families of call-to-action lines, the family a category name belongs to
  (the tests of \<open>_add_contextual_ctas\<close>, in their order) and the candidates of a family.
\<close>

datatype cta_family = Service | Career | CaseStudy

definition category_family :: "string \<Rightarrow> cta_family option" where
  "category_family category =
     (if sublist ''service'' (lower category) then Some Service
      else if sublist ''career'' (lower category) then Some Career
      else if sublist ''case'' (lower category) \<or> sublist ''success'' (lower category)
      then Some CaseStudy
      else None)"

fun family_ctas :: "config \<Rightarrow> cta_family \<Rightarrow> string list" where
  "family_ctas cfg Service = service_ctas cfg"
| "family_ctas cfg Career = career_ctas cfg"
| "family_ctas cfg CaseStudy = case_study_ctas"


text \<open>The visible content of a text: its characters other than whitespace.\<close>

definition visible :: "string \<Rightarrow> string" where
  "visible s = filter (\<lambda>c. \<not> is_space c) s"


section \<open>A small world to run the model on\<close>

text \<open>
  The shipped configuration with its default thresholds, an embedder that scores two
  file names high, and a file system with one populated folder.
\<close>

definition example_config :: config where
  "example_config = load_config (Num (21 / 100)) 3 (Num (1 / 2))"

definition example_dp :: "string document_processor" where
  "example_dp =
     DocumentProcessor example_config Some
       (\<lambda>q d. if prefix ''pricing.txt'' d then Num (40 / 100)
              else if prefix ''services.txt'' d then Num (91 / 100)
              else Num (5 / 100))"

definition example_fs :: filesystem where
  "example_fs path =
     (if path = ''data/Services/''
      then Some [(''notes.txt'', Some ''  misc ''), (''pricing.txt'', Some ''plans''),
                 (''empty.txt'', Some ''   ''), (''broken.txt'', None),
                 (''services.txt'', Some ''automation\<newline>'')]
      else None)"



text \<open>A classifier that always raises, and one that is never confident.\<close>

definition no_classifier :: classifier where
  "no_classifier text labels = None"

definition flat_classifier :: classifier where
  "flat_classifier text labels =
     Some (labels, [Num (25 / 100), Num (20 / 100), Num (15 / 100), Num (10 / 100),
                    Num (10 / 100), Num (10 / 100), Num (5 / 100), Num (5 / 100)])"


text \<open>
  An engine over that world, one pair of random draws, a float formatter, and the intent
  result of the utterance \<open>career services\<close>.
\<close>

definition example_engine :: "(string, unit) chat_engine" where
  "example_engine =
     \<lparr> config = example_config,
       intent_classifier = no_classifier,
       document_processor = example_dp,
       llm = Some (\<lambda>prompt docs history. Some ''Hello! We build chatbots.''),
       memory = () \<rparr>"

text \<open>The same engine with no language model configured.\<close>

definition example_engine_no_llm :: "(string, unit) chat_engine" where
  "example_engine_no_llm = example_engine \<lparr> llm := None \<rparr>"

definition example_rnd :: rnd where
  "example_rnd = \<lparr> choice_draw = 0, random_draw = 1 / 2 \<rparr>"

definition example_format :: "pyfloat \<Rightarrow> string" where
  "example_format x = ''1.00''"

definition career_then_service :: intent_result where
  "career_then_service =
     \<lparr> intent_method = ''keyword'',
       intent_categories = [''career opportunities, vacancies, and recruitment'',
                            ''services offered by the company''],
       folders = [''data/Career and Vacancies/'', ''data/Services/''],
       confidence = Num 1,
       details = [\<lparr> d_category = ''career opportunities, vacancies, and recruitment'',
                    d_keyword = Some ''career'', d_confidence = None,
                    d_method = ''keyword'' \<rparr>,
                  \<lparr> d_category = ''services offered by the company'',
                    d_keyword = Some ''services'', d_confidence = None,
                    d_method = ''keyword'' \<rparr>] \<rparr>"


section \<open>Properties of the document processor\<close>

lemma float_ge_Num: "float_ge a b \<Longrightarrow> \<exists>x y. a = Num x \<and> b = Num y \<and> y \<le> x"
  by (cases a; cases b) auto

lemma set_insort_reverse: "set (insort_reverse key x xs) = insert x (set xs)"
  by (induction xs) auto

lemma set_sort_reverse: "set (sort_reverse key xs) = set xs"
  by (induction xs) (auto simp: set_insort_reverse)

lemma length_insort_reverse: "length (insort_reverse key x xs) = Suc (length xs)"
  by (induction xs) auto

lemma length_sort_reverse: "length (sort_reverse key xs) = length xs"
  by (induction xs) (auto simp: length_insort_reverse)

lemma descending_insort_reverse:
  assumes "descending key xs" and "float_ge (key x) m" and "\<forall>y\<in>set xs. float_ge (key y) m"
  shows "descending key (insort_reverse key x xs)"
  using assms
proof (induction xs)
  case Nil
  then show ?case by (simp add: descending_def)
next
  case (Cons y ys)
  obtain a where a: "key x = Num a"
    using Cons.prems(2) float_ge_Num by blast
  obtain b where b: "key y = Num b"
    using Cons.prems(3) float_ge_Num by fastforce
  have nums: "\<forall>z\<in>set ys. \<exists>c. key z = Num c"
    using Cons.prems(3) float_ge_Num by fastforce
  show ?case
  proof (cases "a < b")
    case True
    have tail: "descending key (insort_reverse key x ys)"
      using Cons.IH Cons.prems by (simp add: descending_def)
    have "\<forall>z\<in>set (insort_reverse key x ys). float_ge (key y) (key z)"
      using Cons.prems(1) True a b by (auto simp: set_insort_reverse descending_def)
    with tail True a b show ?thesis by (simp add: descending_def)
  next
    case False
    have "\<forall>z\<in>set ys. float_ge (key x) (key z)"
    proof
      fix z assume z: "z \<in> set ys"
      then obtain c where c: "key z = Num c" using nums by blast
      have "float_ge (key y) (key z)" using Cons.prems(1) z by (simp add: descending_def)
      then show "float_ge (key x) (key z)" using a b c False by simp
    qed
    with Cons.prems(1) False a b show ?thesis by (simp add: descending_def)
  qed
qed

lemma descending_sort_reverse:
  "\<forall>y\<in>set xs. float_ge (key y) m \<Longrightarrow> descending key (sort_reverse key xs)"
proof (induction xs)
  case Nil
  then show ?case by (simp add: descending_def)
next
  case (Cons x xs)
  then show ?case
    using descending_insort_reverse [of key "sort_reverse key xs" x m]
    by (simp add: set_sort_reverse)
qed

lemma descending_take: "descending key xs \<Longrightarrow> descending key (take n xs)"
  unfolding descending_def by (rule sorted_wrt_take)

lemma process_file_threshold:
  "r \<in> set (process_file dp q m file) \<Longrightarrow> float_ge (fst r) m"
  by (auto simp: process_file_def Let_def split: option.splits if_splits)

lemma process_folder_threshold:
  "r \<in> set (process_folder dp fs folder q m) \<Longrightarrow> float_ge (fst r) m"
  by (auto simp: process_folder_def split: option.splits dest: process_file_threshold)

lemma foldl_extend:
  "foldl (\<lambda>results folder. results @ f folder) acc fps = acc @ concat (map f fps)"
  by (induction fps arbitrary: acc) auto

lemma slice_to_subset: "set (slice_to xs k) \<subseteq> set xs"
  by (auto simp: slice_to_def dest: in_set_takeD)

lemma slice_to_length: "0 \<le> k \<Longrightarrow> int (length (slice_to xs k)) \<le> k"
  by (simp add: slice_to_def)

lemma descending_slice_to: "descending key xs \<Longrightarrow> descending key (slice_to xs k)"
  by (simp add: slice_to_def descending_take)

text \<open>\<open>rank_documents\<close> returns exactly when the embedder accepts the query.\<close>

lemma rank_documents_returns:
  "(\<exists>rs. rank_documents dp fs user_prompt folder_paths top_k min_sim = Inr rs)
     \<longleftrightarrow> encode dp user_prompt \<noteq> None"
  by (auto simp: rank_documents_def Let_def split: option.splits)

text \<open>
  C1. Whatever the utterance, the folders and the threshold, a list returned by
  \<open>rank_documents\<close> is in non-increasing order of similarity, holds only documents
  whose similarity is at least the threshold in force, and, when the limit in force is
  not negative, has at most that many elements. The threshold and the limit in force
  are the arguments, or the configured defaults when an argument is \<open>None\<close>.
\<close>

theorem rank_documents_sorted_thresholded_bounded:
  assumes "rank_documents dp fs user_prompt folder_paths top_k min_sim = Inr rs"
    and "k = (case top_k of None \<Rightarrow> max_docs dp | Some k' \<Rightarrow> k')"
    and "m = (case min_sim of None \<Rightarrow> min_similarity dp | Some m' \<Rightarrow> m')"
    and "0 \<le> k"
  shows "sorted_wrt (\<lambda>a b. float_ge (fst a) (fst b)) rs
       \<and> (\<forall>r\<in>set rs. float_ge (fst r) m)
       \<and> int (length rs) \<le> k"
proof -
  obtain q where q: "encode dp user_prompt = Some q"
    using assms(1) by (auto simp: rank_documents_def Let_def split: option.splits)
  define results where
    "results = concat (map (\<lambda>folder. process_folder dp fs folder q m) folder_paths)"
  have rs: "rs = slice_to (sort_reverse fst results) k"
    using assms(1) q
    by (simp add: rank_documents_def Let_def foldl_extend results_def assms(2,3))
  have thr: "\<forall>r\<in>set results. float_ge (fst r) m"
    by (auto simp: results_def dest: process_folder_threshold)
  have "descending fst (sort_reverse fst results)"
    using thr by (rule descending_sort_reverse)
  then have "descending fst rs"
    unfolding rs by (rule descending_slice_to)
  moreover have "\<forall>r\<in>set rs. float_ge (fst r) m"
    using thr slice_to_subset [of "sort_reverse fst results" k]
    by (auto simp: rs set_sort_reverse)
  moreover have "int (length rs) \<le> k"
    unfolding rs using assms(4) by (rule slice_to_length)
  ultimately show ?thesis by (simp add: descending_def)
qed

lemmas example_defs =
  example_config_def load_config_def DocumentProcessor_def example_dp_def example_fs_def

lemma example_rank:
  "rank_documents example_dp example_fs ''what do you offer''
       [''data/General/'', ''data/Services/''] None None
     = Inr [(Num (91 / 100), ''services.txt'', ''automation''),
            (Num (40 / 100), ''pricing.txt'', ''plans'')]"
  by (simp add: rank_documents_def example_defs process_folder_def process_file_def strip_def is_space_def slice_to_def)

theorem rank_documents_sorted_thresholded_bounded_witness:
  "rank_documents example_dp example_fs ''what do you offer''
       [''data/General/'', ''data/Services/''] None None
     = Inr [(Num (91 / 100), ''services.txt'', ''automation''),
            (Num (40 / 100), ''pricing.txt'', ''plans'')]
   \<and> max_docs example_dp = 3
   \<and> min_similarity example_dp = Num (21 / 100)
   \<and> sorted_wrt (\<lambda>a b. float_ge (fst a) (fst b))
        [(Num (91 / 100), ''services.txt'', ''automation''),
         (Num (40 / 100), ''pricing.txt'', ''plans'')]
   \<and> float_ge (Num (91 / 100)) (Num (21 / 100))
   \<and> float_ge (Num (40 / 100)) (Num (21 / 100))
   \<and> int (length [(Num (91 / 100), ''services.txt'', ''automation''),
                   (Num (40 / 100), ''pricing.txt'', ''plans'')]) \<le> 3"
proof -
  have k: "max_docs example_dp = 3" and m: "min_similarity example_dp = Num (21 / 100)"
    by (simp_all add: example_defs)
  show ?thesis
    using example_rank k m
      rank_documents_sorted_thresholded_bounded
        [OF example_rank, of "max_docs example_dp" "min_similarity example_dp"]
    by simp
qed

text \<open>
  C8. A folder path that does not exist adds no document, and ranking a list of folders
  that holds it gives exactly what ranking the list without it gives: the same
  documents, or the same failure of the query embedding. The missing folder itself
  never makes \<open>rank_documents\<close> raise.
\<close>

theorem rank_documents_skips_missing_folder:
  assumes "fs folder = None"
  shows "process_folder dp fs folder query_embedding min_sim = []
       \<and> rank_documents dp fs user_prompt (before @ folder # after) top_k min_sim'
           = rank_documents dp fs user_prompt (before @ after) top_k min_sim'"
proof -
  have skip: "\<And>q m. process_folder dp fs folder q m = []"
    using assms by (simp add: process_folder_def)
  show ?thesis
    by (simp add: skip rank_documents_def Let_def foldl_extend split: option.splits)
qed

theorem rank_documents_skips_missing_folder_witness:
  "example_fs ''data/General/'' = None
   \<and> process_folder example_dp example_fs ''data/General/'' ''q'' (Num (21 / 100)) = []
   \<and> rank_documents example_dp example_fs ''what do you offer''
         ([] @ ''data/General/'' # [''data/Services/'']) None None
       = rank_documents example_dp example_fs ''what do you offer''
         ([] @ [''data/Services/'']) None None
   \<and> rank_documents example_dp example_fs ''what do you offer''
         ([] @ [''data/Services/'']) None None
       = Inr [(Num (91 / 100), ''services.txt'', ''automation''),
              (Num (40 / 100), ''pricing.txt'', ''plans'')]"
proof -
  have missing: "example_fs ''data/General/'' = None"
    by (simp add: example_fs_def)
  have rest: "rank_documents example_dp example_fs ''what do you offer''
         ([] @ [''data/Services/'']) None None
       = Inr [(Num (91 / 100), ''services.txt'', ''automation''),
              (Num (40 / 100), ''pricing.txt'', ''plans'')]"
    by (simp add: rank_documents_def example_defs process_folder_def process_file_def strip_def is_space_def slice_to_def)
  show ?thesis
    using missing rest
      rank_documents_skips_missing_folder
        [where fs = example_fs and folder = "''data/General/''" and dp = example_dp
           and query_embedding = "''q''" and min_sim = "Num (21 / 100)"
           and user_prompt = "''what do you offer''" and before = "[]"
           and after = "[''data/Services/'']" and top_k = None and min_sim' = None]
    by simp
qed


section \<open>Properties of the intent detector\<close>

lemma those_Some_map: "those xs = Some ys \<Longrightarrow> xs = map Some ys"
  by (induction xs arbitrary: ys) (auto split: option.splits)

lemma those_map_total: "\<forall>x\<in>set xs. f x \<noteq> None \<Longrightarrow> \<exists>ys. those (map f xs) = Some ys"
  by (induction xs) auto

lemma folders_for_Inr:
  "folders_for cfg cs = Inr fs \<Longrightarrow> map (map_of (category_folders cfg)) cs = map Some fs"
  by (auto simp: folders_for_def split: option.splits dest: those_Some_map)

lemma folders_for_index:
  assumes "folders_for cfg cs = Inr fs"
  shows "length cs = length fs
       \<and> (\<forall>i<length cs. map_of (category_folders cfg) (cs ! i) = Some (fs ! i))"
proof -
  have eq: "map (map_of (category_folders cfg)) cs = map Some fs"
    using assms by (rule folders_for_Inr)
  then have len: "length cs = length fs"
    by (metis length_map)
  have "\<forall>i<length cs. map_of (category_folders cfg) (cs ! i) = Some (fs ! i)"
  proof (intro allI impI)
    fix i assume i: "i < length cs"
    have "map (map_of (category_folders cfg)) cs ! i = map Some fs ! i"
      using eq by simp
    then show "map_of (category_folders cfg) (cs ! i) = Some (fs ! i)"
      using i len by simp
  qed
  with len show ?thesis by simp
qed

lemma get_fallback_intent_folders:
  "get_fallback_intent cfg = Inr r \<Longrightarrow> folders_follow_categories cfg r"
  unfolding get_fallback_intent_def folders_follow_categories_def
  by (auto split: sum.splits dest!: folders_for_index)

lemma detect_by_ml_folders:
  "detect_by_ml cfg clf u mc sm = Inr r \<Longrightarrow> folders_follow_categories cfg r"
  unfolding detect_by_ml_def Let_def
  by (auto split: option.splits list.splits sum.splits prod.splits
           dest: get_fallback_intent_folders
           dest!: folders_for_index simp: folders_follow_categories_def)

text \<open>
  C10. Whichever branch produced it (keyword, classifier or fallback), a result returned
  by \<open>detect_intents\<close> has as many folders as categories, and the folder at each index
  is the configured \<open>category_folders\<close> entry of the category at that index.
\<close>

theorem detect_intents_folders_follow_categories:
  assumes "detect_intents cfg clf user_prompt min_conf score_margin = Inr r"
  shows "length (intent_categories r) = length (folders r)
       \<and> (\<forall>i<length (intent_categories r).
             map_of (category_folders cfg) (intent_categories r ! i) = Some (folders r ! i))"
proof (cases "detect_by_keywords cfg user_prompt = []")
  case True
  then have "detect_by_ml cfg clf user_prompt
               (case min_conf of None \<Rightarrow> min_confidence cfg | Some c \<Rightarrow> c) score_margin = Inr r"
    using assms by (simp add: detect_intents_def Let_def)
  then show ?thesis
    using detect_by_ml_folders by (simp add: folders_follow_categories_def)
next
  case False
  then obtain fs where fs: "folders_for cfg (map d_category (detect_by_keywords cfg user_prompt)) = Inr fs"
    and r: "r = \<lparr> intent_method = ''keyword'',
                  intent_categories = map d_category (detect_by_keywords cfg user_prompt),
                  folders = fs, confidence = Num 1,
                  details = detect_by_keywords cfg user_prompt \<rparr>"
    using assms by (auto simp: detect_intents_def Let_def split: sum.splits)
  show ?thesis
    using folders_for_index [OF fs] by (simp add: r)
qed

lemma first_keyword_None:
  "first_keyword p ks = None \<longleftrightarrow> \<not> (\<exists>k\<in>set ks. sublist (lower k) p)"
  by (induction ks) auto

lemma first_keyword_Some:
  "first_keyword p ks = Some k \<Longrightarrow> k \<in> set ks \<and> sublist (lower k) p"
  by (induction ks) (auto split: if_splits)

lemma keyword_categories_filter:
  "map d_category
     (concat (map (\<lambda>(category, keywords).
                     case first_keyword (lower u) keywords of
                       None \<Rightarrow> []
                     | Some keyword \<Rightarrow>
                         [\<lparr> d_category = category, d_keyword = Some keyword,
                            d_confidence = None, d_method = ''keyword'' \<rparr>]) table))
   = map fst (filter (keyword_hit u) table)"
proof (induction table)
  case Nil
  show ?case by simp
next
  case (Cons e table)
  obtain c ks where e: "e = (c, ks)" by (cases e)
  show ?case
  proof (cases "first_keyword (lower u) ks")
    case None
    then have "\<not> keyword_hit u e"
      by (simp add: keyword_hit_def e first_keyword_None)
    with None Cons.IH show ?thesis by (simp add: e)
  next
    case (Some k)
    then have "keyword_hit u e"
      using first_keyword_Some [OF Some] by (auto simp: keyword_hit_def e)
    with Some Cons.IH show ?thesis by (simp add: e)
  qed
qed

lemma detect_by_keywords_categories:
  "map d_category (detect_by_keywords cfg u) = map fst (filter (keyword_hit u) (category_keywords cfg))"
  unfolding detect_by_keywords_def Let_def by (rule keyword_categories_filter)

lemma detect_by_keywords_empty:
  "detect_by_keywords cfg u = [] \<longleftrightarrow> (\<forall>e\<in>set (category_keywords cfg). \<not> keyword_hit u e)"
proof -
  have "detect_by_keywords cfg u = [] \<longleftrightarrow> map d_category (detect_by_keywords cfg u) = []"
    by simp
  also have "\<dots> \<longleftrightarrow> filter (keyword_hit u) (category_keywords cfg) = []"
    by (simp add: detect_by_keywords_categories)
  also have "\<dots> \<longleftrightarrow> (\<forall>e\<in>set (category_keywords cfg). \<not> keyword_hit u e)"
    by (simp add: filter_empty_conv)
  finally show ?thesis .
qed

lemma folders_for_total:
  assumes "\<forall>c\<in>set cs. map_of (category_folders cfg) c \<noteq> None"
  shows "\<exists>fs. folders_for cfg cs = Inr fs"
proof -
  obtain ys where "those (map (map_of (category_folders cfg)) cs) = Some ys"
    using those_map_total [OF assms] by blast
  then show ?thesis by (simp add: folders_for_def)
qed

text \<open>
  C2, amended. When the utterance contains a configured keyword of a category as a
  case-insensitive substring, and every category of the keyword table has a configured
  folder, \<open>detect_intents\<close> returns a result found by keyword with confidence 1.0; that
  category is among the returned categories, and the returned categories are exactly the
  configured categories with a matching keyword, in configuration order. So the first
  returned category is the first configured category that has a matching keyword.
\<close>

theorem detect_intents_keyword_pass:
  assumes "(category, keywords) \<in> set (category_keywords cfg)"
    and "keyword \<in> set keywords"
    and "sublist (lower keyword) (lower user_prompt)"
    and "\<forall>c\<in>set (map fst (category_keywords cfg)). map_of (category_folders cfg) c \<noteq> None"
  shows "\<exists>r. detect_intents cfg clf user_prompt min_conf score_margin = Inr r
           \<and> intent_method r = ''keyword''
           \<and> confidence r = Num 1
           \<and> category \<in> set (intent_categories r)
           \<and> intent_categories r
               = map fst (filter (keyword_hit user_prompt) (category_keywords cfg))"
proof -
  let ?matches = "detect_by_keywords cfg user_prompt"
  let ?hits = "filter (keyword_hit user_prompt) (category_keywords cfg)"
  have hit: "keyword_hit user_prompt (category, keywords)"
    using assms(2,3) by (auto simp: keyword_hit_def)
  then have mem: "(category, keywords) \<in> set ?hits"
    using assms(1) by simp
  have cats: "map d_category ?matches = map fst ?hits"
    by (rule detect_by_keywords_categories)
  have nonempty: "?matches \<noteq> []"
    using mem cats by (metis empty_iff list.map_disc_iff list.set(1))
  have "\<forall>c\<in>set (map d_category ?matches). map_of (category_folders cfg) c \<noteq> None"
    using assms(4) unfolding cats by auto
  then obtain fs where fs: "folders_for cfg (map d_category ?matches) = Inr fs"
    using folders_for_total by blast
  have "detect_intents cfg clf user_prompt min_conf score_margin
          = Inr \<lparr> intent_method = ''keyword'', intent_categories = map d_category ?matches,
                  folders = fs, confidence = Num 1, details = ?matches \<rparr>"
    using nonempty fs by (simp add: detect_intents_def Let_def)
  moreover have "category \<in> set (map fst ?hits)"
    using mem by force
  ultimately show ?thesis
    by (simp add: cats)
qed

lemma example_config_folders:
  "\<forall>c\<in>set (map fst (category_keywords example_config)).
     map_of (category_folders example_config) c \<noteq> None"
  by (simp add: example_config_def load_config_def)

lemma example_two_keywords:
  "detect_intents example_config no_classifier ''career blog'' None (Num (5 / 100))
   = Inr \<lparr> intent_method = ''keyword'',
           intent_categories = [''company blog posts'',
                                ''career opportunities, vacancies, and recruitment''],
           folders = [''data/Blog/'', ''data/Career and Vacancies/''],
           confidence = Num 1,
           details = [\<lparr> d_category = ''company blog posts'',
                        d_keyword = Some ''blog'', d_confidence = None,
                        d_method = ''keyword'' \<rparr>,
                      \<lparr> d_category = ''career opportunities, vacancies, and recruitment'',
                        d_keyword = Some ''career'', d_confidence = None,
                        d_method = ''keyword'' \<rparr>] \<rparr>"
  by code_simp

theorem detect_intents_folders_follow_categories_witness:
  "detect_intents example_config no_classifier ''career blog'' None (Num (5 / 100))
   = Inr \<lparr> intent_method = ''keyword'',
           intent_categories = [''company blog posts'',
                                ''career opportunities, vacancies, and recruitment''],
           folders = [''data/Blog/'', ''data/Career and Vacancies/''],
           confidence = Num 1,
           details = [\<lparr> d_category = ''company blog posts'',
                        d_keyword = Some ''blog'', d_confidence = None,
                        d_method = ''keyword'' \<rparr>,
                      \<lparr> d_category = ''career opportunities, vacancies, and recruitment'',
                        d_keyword = Some ''career'', d_confidence = None,
                        d_method = ''keyword'' \<rparr>] \<rparr>
   \<and> map_of (category_folders example_config) ''company blog posts'' = Some ''data/Blog/''
   \<and> map_of (category_folders example_config)
         ''career opportunities, vacancies, and recruitment''
       = Some ''data/Career and Vacancies/''"
  using example_two_keywords
    detect_intents_folders_follow_categories [OF example_two_keywords]
  by (simp add: All_less_Suc2)

text \<open>
  C2, as stated, fails: the utterance \<open>career blog\<close> contains the keyword \<open>career\<close> of
  the career category, yet the first returned category is the blog category, which comes
  earlier in the configuration and has a matching keyword of its own.
\<close>

theorem keyword_category_first_counterexample:
  "''career'' \<in> set (the (map_of (category_keywords example_config)
                             ''career opportunities, vacancies, and recruitment''))
   \<and> sublist (lower ''career'') (lower ''career blog'')
   \<and> map_sum id intent_categories
        (detect_intents example_config no_classifier ''career blog'' None (Num (5 / 100)))
       = Inr [''company blog posts'', ''career opportunities, vacancies, and recruitment'']
   \<and> hd [''company blog posts'', ''career opportunities, vacancies, and recruitment'']
       \<noteq> ''career opportunities, vacancies, and recruitment''"
proof -
  have "''career'' \<in> set (the (map_of (category_keywords example_config)
                             ''career opportunities, vacancies, and recruitment''))"
    by (simp add: example_config_def load_config_def)
  moreover have "sublist (lower ''career'') (lower ''career blog'')"
    by code_simp
  ultimately show ?thesis
    using example_two_keywords by simp
qed

theorem detect_intents_keyword_pass_witness:
  "(''career opportunities, vacancies, and recruitment'',
      [''vacancy'', ''vacancies'', ''openings'', ''job position'', ''job opening'',
       ''hiring'', ''hire'', ''job post'', ''recruitment'', ''career'', ''career path'',
       ''opportunities'', ''job opportunities'', ''career growth'', ''roles available'',
       ''employment'', ''work at''])
     \<in> set (category_keywords example_config)
   \<and> sublist (lower ''job opening'') (lower ''What are your current job openings?'')
   \<and> (\<exists>r. detect_intents example_config no_classifier ''What are your current job openings?''
               None (Num (5 / 100)) = Inr r
           \<and> intent_method r = ''keyword''
           \<and> confidence r = Num 1
           \<and> ''career opportunities, vacancies, and recruitment'' \<in> set (intent_categories r)
           \<and> intent_categories r
               = map fst (filter (keyword_hit ''What are your current job openings?'')
                                 (category_keywords example_config)))"
proof -
  have entry: "(''career opportunities, vacancies, and recruitment'',
      [''vacancy'', ''vacancies'', ''openings'', ''job position'', ''job opening'',
       ''hiring'', ''hire'', ''job post'', ''recruitment'', ''career'', ''career path'',
       ''opportunities'', ''job opportunities'', ''career growth'', ''roles available'',
       ''employment'', ''work at''])
     \<in> set (category_keywords example_config)"
    by (simp add: example_config_def load_config_def)
  have kw: "''job opening'' \<in> set [''vacancy'', ''vacancies'', ''openings'', ''job position'', ''job opening'',
       ''hiring'', ''hire'', ''job post'', ''recruitment'', ''career'', ''career path'',
       ''opportunities'', ''job opportunities'', ''career growth'', ''roles available'',
       ''employment'', ''work at'']"
    by simp
  have occurs: "sublist (lower ''job opening'') (lower ''What are your current job openings?'')"
    by code_simp
  show ?thesis
    using entry occurs
      detect_intents_keyword_pass [OF entry kw occurs example_config_folders,
        of no_classifier None "Num (5 / 100)"]
    by simp
qed

text \<open>
  C3. With the shipped configuration, no keyword in the utterance and a classifier whose
  top score 0.25 is below the minimum confidence 0.5, no label is selected. The returned
  result holds the single default category, but its top-level method is \<open>ml\<close> and its
  confidence is the top score 0.25; only the entry of \<open>details\<close> says \<open>fallback\<close> and 1.0.
\<close>

theorem detect_by_ml_nothing_selected_is_ml:
  "detect_intents example_config flat_classifier ''hello there'' None (Num (5 / 100))
     = Inr \<lparr> intent_method = ''ml'',
             intent_categories = [''general information about the company''],
             folders = [''data/General/''],
             confidence = Num (25 / 100),
             details = [\<lparr> d_category = ''general information about the company'',
                          d_keyword = None, d_confidence = Some (Num 1),
                          d_method = ''fallback'' \<rparr>] \<rparr>"
  by code_simp

text \<open>
  C4. When no configured keyword occurs in the utterance and the classifier raises,
  \<open>detect_intents\<close> does not raise: it returns the fallback result, with the single
  default category, confidence 1.0 and method \<open>fallback\<close>. The default category has a
  configured folder, as it has in the shipped configuration.
\<close>

theorem detect_intents_classifier_failure:
  assumes "\<forall>entry\<in>set (category_keywords cfg). \<not> keyword_hit user_prompt entry"
    and "clf user_prompt (categories cfg) = None"
    and "map_of (category_folders cfg) default_category = Some folder"
  shows "detect_intents cfg clf user_prompt min_conf score_margin
           = Inr \<lparr> intent_method = ''fallback'',
                   intent_categories = [default_category],
                   folders = [folder],
                   confidence = Num 1,
                   details = [\<lparr> d_category = default_category, d_keyword = None,
                                d_confidence = None, d_method = ''fallback'' \<rparr>] \<rparr>"
proof -
  have "detect_by_keywords cfg user_prompt = []"
    using assms(1) by (simp add: detect_by_keywords_empty)
  moreover have "folders_for cfg [default_category] = Inr [folder]"
    using assms(3) by (simp add: folders_for_def)
  ultimately show ?thesis
    using assms(2)
    by (simp add: detect_intents_def detect_by_ml_def get_fallback_intent_def Let_def)
qed

theorem detect_intents_classifier_failure_witness:
  "filter (keyword_hit ''hello there'') (category_keywords example_config) = []
   \<and> no_classifier ''hello there'' (categories example_config) = None
   \<and> map_of (category_folders example_config) default_category = Some ''data/General/''
   \<and> detect_intents example_config no_classifier ''hello there'' None (Num (5 / 100))
       = Inr \<lparr> intent_method = ''fallback'',
               intent_categories = [''general information about the company''],
               folders = [''data/General/''],
               confidence = Num 1,
               details = [\<lparr> d_category = ''general information about the company'',
                            d_keyword = None, d_confidence = None,
                            d_method = ''fallback'' \<rparr>] \<rparr>"
proof -
  have none: "detect_by_keywords example_config ''hello there'' = []"
    by code_simp
  then have nohit: "\<forall>entry\<in>set (category_keywords example_config).
                      \<not> keyword_hit ''hello there'' entry"
    by (simp add: detect_by_keywords_empty)
  have raises: "no_classifier ''hello there'' (categories example_config) = None"
    by (simp add: no_classifier_def)
  have folder: "map_of (category_folders example_config) default_category
                  = Some ''data/General/''"
    by (simp add: example_config_def load_config_def default_category_def)
  have "filter (keyword_hit ''hello there'') (category_keywords example_config) = []"
    using nohit by (simp add: filter_empty_conv)
  then show ?thesis
    using raises folder
      detect_intents_classifier_failure
        [where cfg = example_config and clf = no_classifier and user_prompt = "''hello there''"
           and folder = "''data/General/''" and min_conf = None
           and score_margin = "Num (5 / 100)", OF nohit raises folder]
    by (simp add: default_category_def)
qed

lemma detect_by_ml_nothing_selected:
  assumes "clf user_prompt (categories cfg) = Some (labels, top_score # scores)"
    and "filter (\<lambda>(label, score). float_ge score min_conf
                   \<and> float_le (float_sub top_score score) score_margin)
                (zip labels (top_score # scores)) = []"
    and "map_of (category_folders cfg) default_category = Some folder"
  shows "detect_by_ml cfg clf user_prompt min_conf score_margin
           = Inr \<lparr> intent_method = ''ml'',
                   intent_categories = [default_category],
                   folders = [folder],
                   confidence = top_score,
                   details = [\<lparr> d_category = default_category, d_keyword = None,
                                d_confidence = Some (Num 1), d_method = ''fallback'' \<rparr>] \<rparr>"
  using assms by (simp add: detect_by_ml_def folders_for_def Let_def)

text \<open>
  \<open>detect_intents\<close> returns for every utterance and classifier when each keyword
  category and the default category have a configured folder, as in the shipped
  configuration.
\<close>

lemma get_fallback_intent_returns:
  "map_of (category_folders cfg) default_category \<noteq> None
     \<Longrightarrow> \<exists>r. get_fallback_intent cfg = Inr r"
  by (auto simp: get_fallback_intent_def folders_for_def)

lemma detect_by_ml_returns:
  assumes "map_of (category_folders cfg) default_category \<noteq> None"
  shows "\<exists>r. detect_by_ml cfg clf user_prompt min_conf score_margin = Inr r"
  using get_fallback_intent_returns [OF assms]
  by (auto simp: detect_by_ml_def Let_def split: option.splits list.splits sum.splits)

lemma detect_intents_returns:
  assumes "\<forall>c\<in>set (map fst (category_keywords cfg)). map_of (category_folders cfg) c \<noteq> None"
    and "map_of (category_folders cfg) default_category \<noteq> None"
  shows "\<exists>r. detect_intents cfg clf user_prompt min_conf score_margin = Inr r"
proof (cases "detect_by_keywords cfg user_prompt = []")
  case True
  then show ?thesis
    using detect_by_ml_returns [OF assms(2)] by (simp add: detect_intents_def Let_def)
next
  case False
  have "set (map d_category (detect_by_keywords cfg user_prompt))
          \<subseteq> set (map fst (category_keywords cfg))"
    unfolding detect_by_keywords_categories by auto
  then have "\<forall>c\<in>set (map d_category (detect_by_keywords cfg user_prompt)).
               map_of (category_folders cfg) c \<noteq> None"
    using assms(1) by blast
  then obtain fs where "folders_for cfg (map d_category (detect_by_keywords cfg user_prompt)) = Inr fs"
    using folders_for_total by blast
  with False show ?thesis by (simp add: detect_intents_def Let_def)
qed

lemma detect_intents_returns_shipped:
  "\<exists>r. detect_intents (load_config a b c) clf user_prompt min_conf score_margin = Inr r"
  by (rule detect_intents_returns) (simp_all add: load_config_def default_category_def)


section \<open>Properties of the call to action\<close>

lemma collect_ctas_find:
  "collect_ctas cfg cats =
     (case List.find (\<lambda>c. category_family c \<noteq> None) cats of
        None \<Rightarrow> []
      | Some c \<Rightarrow> family_ctas cfg (the (category_family c)))"
  by (induction cats) (auto simp: category_family_def)

lemma family_ctas_length: "length (family_ctas cfg fam) = 3"
  by (cases fam) (simp_all add: service_ctas_def career_ctas_def case_study_ctas_def)

lemma random_choice_take2:
  assumes "length xs = 3"
  shows "random_choice r (take 2 xs) \<in> set xs"
proof -
  have "choice_draw r mod length (take 2 xs) < length (take 2 xs)"
    using assms by simp
  then have "random_choice r (take 2 xs) \<in> set (take 2 xs)"
    unfolding random_choice_def by (rule nth_mem)
  then show ?thesis by (rule in_set_takeD)
qed

text \<open>
  C9, amended. The call-to-action step goes through the detected categories in order and
  stops at the first one that belongs to a family; the family of a category is the first
  of service, career and case study (a name containing \<open>case\<close> or \<open>success\<close>) whose test
  the category passes. It then appends the separator and one line, which is one of the
  candidates of that family (one of its first two). With no intent result, or when no
  detected category belongs to a family, the reply is returned unchanged.
\<close>

theorem add_contextual_ctas_first_matching_category:
  "add_contextual_ctas cfg r response intents ud =
     (case intents of
        None \<Rightarrow> response
      | Some i \<Rightarrow>
          (case List.find (\<lambda>c. category_family c \<noteq> None) (intent_categories i) of
             None \<Rightarrow> response
           | Some c \<Rightarrow>
               response @ ''\<newline>\<newline>---\<newline>\<newline>''
                 @ random_choice r (take 2 (family_ctas cfg (the (category_family c))))))
   \<and> (\<forall>fam. random_choice r (take 2 (family_ctas cfg fam)) \<in> set (family_ctas cfg fam))"
proof -
  have nonempty: "\<And>fam. family_ctas cfg fam \<noteq> []"
    using family_ctas_length by (metis length_0_conv zero_neq_numeral)
  have "add_contextual_ctas cfg r response intents ud =
     (case intents of
        None \<Rightarrow> response
      | Some i \<Rightarrow>
          (case List.find (\<lambda>c. category_family c \<noteq> None) (intent_categories i) of
             None \<Rightarrow> response
           | Some c \<Rightarrow>
               response @ ''\<newline>\<newline>---\<newline>\<newline>''
                 @ random_choice r (take 2 (family_ctas cfg (the (category_family c))))))"
    by (simp add: add_contextual_ctas_def Let_def collect_ctas_find nonempty
             split: option.splits)
  moreover have "\<forall>fam. random_choice r (take 2 (family_ctas cfg fam)) \<in> set (family_ctas cfg fam)"
    using random_choice_take2 [OF family_ctas_length] by blast
  ultimately show ?thesis by blast
qed

lemma example_career_services:
  "detect_intents example_config no_classifier ''career services'' None (Num (5 / 100))
     = Inr career_then_service"
  by code_simp

text \<open>
  C9, as stated, fails: for the utterance \<open>career services\<close> the detected categories are
  the career category and then the service category. The service family, first in the
  claimed priority order, matches a detected category, yet the appended line is a career
  line and is none of the service candidates.
\<close>

theorem cta_family_priority_counterexample:
  "detect_intents example_config no_classifier ''career services'' None (Num (5 / 100))
     = Inr career_then_service
   \<and> category_family ''services offered by the company'' = Some Service
   \<and> add_contextual_ctas example_config example_rnd ''Thanks.'' (Some career_then_service) None
       = ''Thanks.'' @ ''\<newline>\<newline>---\<newline>\<newline>'' @ hd (career_ctas example_config)
   \<and> hd (career_ctas example_config) \<notin> set (service_ctas example_config)"
proof -
  have "category_family ''services offered by the company'' = Some Service"
    by code_simp
  moreover have "add_contextual_ctas example_config example_rnd ''Thanks.''
                   (Some career_then_service) None
       = ''Thanks.'' @ ''\<newline>\<newline>---\<newline>\<newline>'' @ hd (career_ctas example_config)"
    by code_simp
  moreover have "hd (career_ctas example_config) \<notin> set (service_ctas example_config)"
    by code_simp
  ultimately show ?thesis
    using example_career_services by simp
qed

theorem add_contextual_ctas_first_matching_category_witness:
  "List.find (\<lambda>c. category_family c \<noteq> None) (intent_categories career_then_service)
     = Some ''career opportunities, vacancies, and recruitment''
   \<and> category_family ''career opportunities, vacancies, and recruitment'' = Some Career
   \<and> add_contextual_ctas example_config example_rnd ''Thanks.'' (Some career_then_service) None
       = ''Thanks.'' @ ''\<newline>\<newline>---\<newline>\<newline>''
           @ random_choice example_rnd (take 2 (career_ctas example_config))
   \<and> random_choice example_rnd (take 2 (career_ctas example_config))
       \<in> set (career_ctas example_config)"
proof -
  have f: "List.find (\<lambda>c. category_family c \<noteq> None) (intent_categories career_then_service)
     = Some ''career opportunities, vacancies, and recruitment''"
    by code_simp
  have c: "category_family ''career opportunities, vacancies, and recruitment'' = Some Career"
    by code_simp
  show ?thesis
    using f c
      add_contextual_ctas_first_matching_category
        [of example_config example_rnd "''Thanks.''" "Some career_then_service" None]
    by (metis (no_types, lifting) family_ctas.simps(2) option.sel option.simps(5))
qed


section \<open>Properties of the chat engine\<close>

lemma fallback_names_sales_address:
  "sublist ''sales@sundewsolutions.com'' (generate_fallback_response intents ud)"
proof -
  have tail: "sublist ''sales@sundewsolutions.com''
     ''For specific information, please contact our team at sales@sundewsolutions.com or visit our website.''"
    by code_simp
  show ?thesis
    unfolding generate_fallback_response_def Let_def
    using tail by (simp only: sublist_append simp_thms)
qed

lemma fallback_keyed_on_first_category:
  assumes "take 1 (intent_categories other) = take 1 (intent_categories intents)"
  shows "generate_fallback_response other ud' = generate_fallback_response intents ud"
  using assms
  by (cases "intent_categories other"; cases "intent_categories intents")
     (simp_all add: generate_fallback_response_def)

text \<open>
  The text of \<open>_generate_fallback_response\<close>, written out: the opening sentence, the
  guidance of the first category (service, career or case study, in that order of tests;
  nothing for any other category or for no category), and the contact pointer.
\<close>

lemma generate_fallback_response_text:
  "generate_fallback_response intents ud
     = ''I'd be happy to help you with information about Sundew Solutions! ''
       @ (case intent_categories intents of
            [] \<Rightarrow> ''''
          | category # _ \<Rightarrow>
              if sublist ''service'' (lower category)
              then ''We offer comprehensive digital transformation services including AI chatbots, custom web development, and automation solutions. ''
              else if sublist ''career'' (lower category)
              then ''We're always looking for talented individuals! Check out our careers page for current openings. ''
              else if sublist ''case'' (lower category)
              then ''Our case studies showcase successful projects across various industries. ''
              else '''')
       @ ''For specific information, please contact our team at sales@sundewsolutions.com or visit our website.''"
  by (cases "intent_categories intents") (simp_all add: generate_fallback_response_def)

text \<open>
  C7. When intent detection and ranking have returned and either no document was ranked
  or no language model is configured, \<open>process_user_input\<close> returns the fallback reply
  keyed on the first detected category: the opening sentence, then the service, career
  or case-study guidance according to the first category (none for any other category
  or for an empty list), then the contact pointer. The reply contains the sales address
  of the shipped configuration. It is the text of \<open>_generate_fallback_response\<close> itself,
  unchanged by the random draws and the float formatting of the enhancer: no enhancement
  is applied. Every intent result with the same first category gives the same text.
\<close>

theorem process_user_input_fallback:
  assumes "detect_intents (config eng) (intent_classifier eng) user_input None (Num (5 / 100))
             = Inr intents"
    and "rank_documents (document_processor eng) fs user_input (folders intents) (Some 3) None
           = Inr matched_docs"
    and "matched_docs = [] \<or> llm eng = None"
  shows "process_user_input eng fs format_2f r user_input ud
           = ''I'd be happy to help you with information about Sundew Solutions! ''
             @ (case intent_categories intents of
                  [] \<Rightarrow> ''''
                | category # _ \<Rightarrow>
                    if sublist ''service'' (lower category)
                    then ''We offer comprehensive digital transformation services including AI chatbots, custom web development, and automation solutions. ''
                    else if sublist ''career'' (lower category)
                    then ''We're always looking for talented individuals! Check out our careers page for current openings. ''
                    else if sublist ''case'' (lower category)
                    then ''Our case studies showcase successful projects across various industries. ''
                    else '''')
             @ ''For specific information, please contact our team at sales@sundewsolutions.com or visit our website.''
       \<and> sublist (sales_email (contact (load_config env_sim env_docs env_conf)))
           (process_user_input eng fs format_2f r user_input ud)
       \<and> (\<forall>other ud'.
             take 1 (intent_categories other) = take 1 (intent_categories intents)
             \<longrightarrow> generate_fallback_response other ud'
                   = process_user_input eng fs format_2f r user_input ud)
       \<and> process_user_input eng fs format_2f r user_input ud
           = generate_fallback_response intents ud"
proof -
  have reply: "process_user_input eng fs format_2f r user_input ud
                 = generate_fallback_response intents ud"
    using assms by (auto simp: process_user_input_def split: option.splits)
  have address: "sales_email (contact (load_config env_sim env_docs env_conf))
                   = ''sales@sundewsolutions.com''"
    by (simp add: load_config_def)
  have named: "sublist (sales_email (contact (load_config env_sim env_docs env_conf)))
                 (process_user_input eng fs format_2f r user_input ud)"
    unfolding reply address by (rule fallback_names_sales_address)
  have keyed: "\<forall>other ud'.
             take 1 (intent_categories other) = take 1 (intent_categories intents)
             \<longrightarrow> generate_fallback_response other ud'
                   = process_user_input eng fs format_2f r user_input ud"
    unfolding reply using fallback_keyed_on_first_category by blast
  show ?thesis
    using reply [unfolded generate_fallback_response_text [of intents ud]] named keyed reply
    by (intro conjI)
qed

lemma example_job_openings:
  "detect_intents (config example_engine) (intent_classifier example_engine)
       ''What are your current job openings?'' None (Num (5 / 100))
   = Inr \<lparr> intent_method = ''keyword'',
           intent_categories = [''career opportunities, vacancies, and recruitment''],
           folders = [''data/Career and Vacancies/''],
           confidence = Num 1,
           details = [\<lparr> d_category = ''career opportunities, vacancies, and recruitment'',
                        d_keyword = Some ''openings'', d_confidence = None,
                        d_method = ''keyword'' \<rparr>] \<rparr>"
  by code_simp

lemma example_services_question:
  "detect_intents (config example_engine_no_llm) (intent_classifier example_engine_no_llm)
       ''Tell me about your services'' None (Num (5 / 100))
   = Inr \<lparr> intent_method = ''keyword'',
           intent_categories = [''services offered by the company''],
           folders = [''data/Services/''],
           confidence = Num 1,
           details = [\<lparr> d_category = ''services offered by the company'',
                        d_keyword = Some ''services'', d_confidence = None,
                        d_method = ''keyword'' \<rparr>] \<rparr>"
  by code_simp

theorem process_user_input_fallback_witness:
  "detect_intents (config example_engine) (intent_classifier example_engine)
       ''What are your current job openings?'' None (Num (5 / 100))
   = Inr \<lparr> intent_method = ''keyword'',
           intent_categories = [''career opportunities, vacancies, and recruitment''],
           folders = [''data/Career and Vacancies/''],
           confidence = Num 1,
           details = [\<lparr> d_category = ''career opportunities, vacancies, and recruitment'',
                        d_keyword = Some ''openings'', d_confidence = None,
                        d_method = ''keyword'' \<rparr>] \<rparr>
   \<and> rank_documents (document_processor example_engine) example_fs
         ''What are your current job openings?'' [''data/Career and Vacancies/''] (Some 3) None
       = Inr []
   \<and> process_user_input example_engine example_fs example_format example_rnd
         ''What are your current job openings?'' None
       = ''I'd be happy to help you with information about Sundew Solutions! We're always looking for talented individuals! Check out our careers page for current openings. For specific information, please contact our team at sales@sundewsolutions.com or visit our website.''
   \<and> sublist ''sales@sundewsolutions.com''
         (process_user_input example_engine example_fs example_format example_rnd
            ''What are your current job openings?'' None)
   \<and> llm example_engine_no_llm = None
   \<and> rank_documents (document_processor example_engine_no_llm) example_fs
         ''Tell me about your services'' [''data/Services/''] (Some 3) None
       = Inr [(Num (91 / 100), ''services.txt'', ''automation''),
              (Num (40 / 100), ''pricing.txt'', ''plans'')]
   \<and> process_user_input example_engine_no_llm example_fs example_format example_rnd
         ''Tell me about your services'' None
       = ''I'd be happy to help you with information about Sundew Solutions! We offer comprehensive digital transformation services including AI chatbots, custom web development, and automation solutions. For specific information, please contact our team at sales@sundewsolutions.com or visit our website.''"
proof -
  have ranked: "rank_documents (document_processor example_engine) example_fs
         ''What are your current job openings?''
         (folders \<lparr> intent_method = ''keyword'',
           intent_categories = [''career opportunities, vacancies, and recruitment''],
           folders = [''data/Career and Vacancies/''],
           confidence = Num 1,
           details = [\<lparr> d_category = ''career opportunities, vacancies, and recruitment'',
                        d_keyword = Some ''openings'', d_confidence = None,
                        d_method = ''keyword'' \<rparr>] \<rparr>) (Some 3) None
       = Inr []"
    by (simp add: rank_documents_def example_engine_def example_defs process_folder_def slice_to_def)
  have career_text:
    "''I'd be happy to help you with information about Sundew Solutions! ''
       @ (case intent_categories
                 \<lparr> intent_method = ''keyword'',
                   intent_categories = [''career opportunities, vacancies, and recruitment''],
                   folders = [''data/Career and Vacancies/''],
                   confidence = Num 1,
                   details = [\<lparr> d_category = ''career opportunities, vacancies, and recruitment'',
                                d_keyword = Some ''openings'', d_confidence = None,
                                d_method = ''keyword'' \<rparr>] \<rparr> of
            [] \<Rightarrow> ''''
          | category # _ \<Rightarrow>
              if sublist ''service'' (lower category)
              then ''We offer comprehensive digital transformation services including AI chatbots, custom web development, and automation solutions. ''
              else if sublist ''career'' (lower category)
              then ''We're always looking for talented individuals! Check out our careers page for current openings. ''
              else if sublist ''case'' (lower category)
              then ''Our case studies showcase successful projects across various industries. ''
              else '''')
       @ ''For specific information, please contact our team at sales@sundewsolutions.com or visit our website.''
     = ''I'd be happy to help you with information about Sundew Solutions! We're always looking for talented individuals! Check out our careers page for current openings. For specific information, please contact our team at sales@sundewsolutions.com or visit our website.''"
    by code_simp
  have address: "sales_email (contact (load_config NaN 0 NaN)) = ''sales@sundewsolutions.com''"
    by (simp add: load_config_def)
  have empty: "([] :: ranked_document list) = [] \<or> llm example_engine = None"
    by simp
  note fallback =
    process_user_input_fallback [OF example_job_openings ranked empty,
      where format_2f = example_format and r = example_rnd and ud = None
        and env_sim = NaN and env_docs = 0 and env_conf = NaN]
  have reply: "process_user_input example_engine example_fs example_format example_rnd
         ''What are your current job openings?'' None
       = ''I'd be happy to help you with information about Sundew Solutions! We're always looking for talented individuals! Check out our careers page for current openings. For specific information, please contact our team at sales@sundewsolutions.com or visit our website.''"
    using fallback [THEN conjunct1] career_text by (rule trans)
  have named: "sublist ''sales@sundewsolutions.com''
         (process_user_input example_engine example_fs example_format example_rnd
            ''What are your current job openings?'' None)"
    using fallback [THEN conjunct2, THEN conjunct1] unfolding address .
  have ranked': "rank_documents (document_processor example_engine) example_fs
         ''What are your current job openings?'' [''data/Career and Vacancies/''] (Some 3) None
       = Inr []"
    using ranked by (simp only: intent_result.simps)
  have no_llm: "llm example_engine_no_llm = None"
    by (simp add: example_engine_no_llm_def)
  have ranked_services: "rank_documents (document_processor example_engine_no_llm) example_fs
         ''Tell me about your services''
         (folders \<lparr> intent_method = ''keyword'',
           intent_categories = [''services offered by the company''],
           folders = [''data/Services/''],
           confidence = Num 1,
           details = [\<lparr> d_category = ''services offered by the company'',
                        d_keyword = Some ''services'', d_confidence = None,
                        d_method = ''keyword'' \<rparr>] \<rparr>) (Some 3) None
       = Inr [(Num (91 / 100), ''services.txt'', ''automation''),
              (Num (40 / 100), ''pricing.txt'', ''plans'')]"
    by (simp add: rank_documents_def example_engine_no_llm_def example_engine_def example_defs
          process_folder_def process_file_def strip_def is_space_def slice_to_def)
  have service_text:
    "''I'd be happy to help you with information about Sundew Solutions! ''
       @ (case intent_categories
                 \<lparr> intent_method = ''keyword'',
                   intent_categories = [''services offered by the company''],
                   folders = [''data/Services/''],
                   confidence = Num 1,
                   details = [\<lparr> d_category = ''services offered by the company'',
                                d_keyword = Some ''services'', d_confidence = None,
                                d_method = ''keyword'' \<rparr>] \<rparr> of
            [] \<Rightarrow> ''''
          | category # _ \<Rightarrow>
              if sublist ''service'' (lower category)
              then ''We offer comprehensive digital transformation services including AI chatbots, custom web development, and automation solutions. ''
              else if sublist ''career'' (lower category)
              then ''We're always looking for talented individuals! Check out our careers page for current openings. ''
              else if sublist ''case'' (lower category)
              then ''Our case studies showcase successful projects across various industries. ''
              else '''')
       @ ''For specific information, please contact our team at sales@sundewsolutions.com or visit our website.''
     = ''I'd be happy to help you with information about Sundew Solutions! We offer comprehensive digital transformation services including AI chatbots, custom web development, and automation solutions. For specific information, please contact our team at sales@sundewsolutions.com or visit our website.''"
    by code_simp
  have unconfigured:
    "[(Num (91 / 100), ''services.txt'', ''automation''), (Num (40 / 100), ''pricing.txt'', ''plans'')]
       = ([] :: ranked_document list) \<or> llm example_engine_no_llm = None"
    using no_llm by simp
  note fallback_services =
    process_user_input_fallback [OF example_services_question ranked_services unconfigured,
      where format_2f = example_format and r = example_rnd and ud = None
        and env_sim = NaN and env_docs = 0 and env_conf = NaN]
  have reply_services:
    "process_user_input example_engine_no_llm example_fs example_format example_rnd
         ''Tell me about your services'' None
       = ''I'd be happy to help you with information about Sundew Solutions! We offer comprehensive digital transformation services including AI chatbots, custom web development, and automation solutions. For specific information, please contact our team at sales@sundewsolutions.com or visit our website.''"
    using fallback_services [THEN conjunct1] service_text by (rule trans)
  have ranked_services': "rank_documents (document_processor example_engine_no_llm) example_fs
         ''Tell me about your services'' [''data/Services/''] (Some 3) None
       = Inr [(Num (91 / 100), ''services.txt'', ''automation''),
              (Num (40 / 100), ''pricing.txt'', ''plans'')]"
    using ranked_services by (simp only: intent_result.simps)
  show ?thesis
    using example_job_openings ranked' reply named no_llm ranked_services' reply_services
    by (intro conjI)
qed


section \<open>Properties of response enhancement and prompt assembly\<close>

lemma visible_append: "visible (a @ b) = visible a @ visible b"
  by (simp add: visible_def)

lemma visible_Cons_space: "is_space c \<Longrightarrow> visible (c # s) = visible s"
  by (simp add: visible_def)

lemma is_space_newline: "is_space (CHR 0x0A)"
  by (simp add: is_space_def)

lemma is_space_blank: "is_space (CHR '' '')"
  by (simp add: is_space_def)

lemma visible_dropWhile:
  "(\<And>c. P c \<Longrightarrow> is_space c) \<Longrightarrow> visible (dropWhile P s) = visible s"
  by (induction s) (auto simp: visible_def)

lemma visible_strip: "visible (strip s) = visible s"
proof -
  have "visible (strip s) = rev (visible (dropWhile is_space (rev (dropWhile is_space s))))"
    by (simp add: strip_def visible_def rev_filter)
  also have "\<dots> = rev (visible (rev (dropWhile is_space s)))"
    by (simp add: visible_dropWhile)
  also have "\<dots> = visible (dropWhile is_space s)"
    by (simp add: visible_def rev_filter)
  also have "\<dots> = visible s"
    by (simp add: visible_dropWhile)
  finally show ?thesis .
qed

lemma visible_sub_newlines: "visible (sub_newlines s) = visible s"
proof (induction s rule: sub_newlines.induct)
  case 1
  show ?case by simp
next
  case (2 c cs)
  show ?case
  proof (cases "c = CHR 0x0A \<and> 2 \<le> length (takeWhile (\<lambda>x. x = CHR 0x0A) cs)")
    case True
    have "visible (sub_newlines (c # cs)) = visible (sub_newlines (dropWhile (\<lambda>x. x = CHR 0x0A) cs))"
      using True by (simp add: visible_Cons_space is_space_newline)
    also have "\<dots> = visible (dropWhile (\<lambda>x. x = CHR 0x0A) cs)"
      using True "2.IH"(1) by simp
    also have "\<dots> = visible cs"
      by (rule visible_dropWhile) (simp add: is_space_newline)
    also have "\<dots> = visible (c # cs)"
      using True by (simp add: visible_Cons_space is_space_newline)
    finally show ?thesis .
  next
    case False
    then have "sub_newlines (c # cs) = c # sub_newlines cs"
      by auto
    moreover have "visible (sub_newlines cs) = visible cs"
      using False "2.IH"(2) by blast
    ultimately show ?thesis by (simp add: visible_def)
  qed
qed

lemma visible_sub_bullet: "visible (sub_bullet marker s) = visible s"
proof (induction marker s rule: sub_bullet.induct)
  case (1 marker a b c rest)
  show ?case
  proof (cases "a = CHR 0x0A \<and> b = marker \<and> is_space c")
    case True
    with 1 show ?thesis
      by (simp add: visible_def is_space_newline is_space_blank)
  next
    case False
    then have "sub_bullet marker (a # b # c # rest) = a # sub_bullet marker (b # c # rest)"
      by auto
    moreover have "visible (sub_bullet marker (b # c # rest)) = visible (b # c # rest)"
      using False 1 by blast
    ultimately show ?thesis by (simp add: visible_def)
  qed
qed simp_all

lemma visible_sub_header: "visible (sub_header s) = visible s"
proof (induction s rule: sub_header.induct)
  case 1
  show ?case by simp
next
  case (2 c cs)
  let ?hashes = "takeWhile (\<lambda>x. x = CHR ''#'') cs"
  let ?rest = "dropWhile (\<lambda>x. x = CHR ''#'') cs"
  show ?case
  proof (cases "c = CHR 0x0A \<and> 1 \<le> length ?hashes \<and> length ?hashes \<le> 6
                  \<and> ?rest \<noteq> [] \<and> is_space (hd ?rest)")
    case True
    then have rest: "?rest = hd ?rest # tl ?rest"
      by simp
    have split: "cs = ?hashes @ hd ?rest # tl ?rest"
      using rest by (metis takeWhile_dropWhile_id)
    have "sub_header (c # cs) = CHR 0x0A # CHR 0x0A # ?hashes @ hd ?rest # sub_header (tl ?rest)"
      using True by (simp add: Let_def)
    then have "visible (sub_header (c # cs))
                 = visible ?hashes @ visible (sub_header (tl ?rest))"
      using True by (simp add: visible_def is_space_newline)
    also have "visible (sub_header (tl ?rest)) = visible (tl ?rest)"
      using True "2.IH"(1) by simp
    also have "visible (tl ?rest) = visible (hd ?rest # tl ?rest)"
      using True by (simp only: visible_Cons_space)
    also have "visible ?hashes @ visible (hd ?rest # tl ?rest)
                 = visible (?hashes @ hd ?rest # tl ?rest)"
      by (simp only: visible_append)
    also have "\<dots> = visible cs"
      using split by simp
    also have "\<dots> = visible (c # cs)"
      using True by (simp only: visible_Cons_space is_space_newline)
    finally show ?thesis .
  next
    case False
    then have "sub_header (c # cs) = c # sub_header cs"
      by (auto simp: Let_def)
    moreover have "visible (sub_header cs) = visible cs"
      using False "2.IH"(2) by (simp add: Let_def)
    ultimately show ?thesis by (simp add: visible_def)
  qed
qed

lemma visible_format_response: "visible (format_response s) = visible s"
  by (simp add: format_response_def visible_strip visible_sub_newlines visible_sub_bullet
        visible_sub_header)

lemma add_branding_elements_appends:
  "\<exists>suffix. add_branding_elements cfg r response intents = response @ suffix"
  by (simp add: add_branding_elements_def Let_def)

lemma add_contextual_ctas_appends:
  "\<exists>suffix. add_contextual_ctas cfg r response intents ud = response @ suffix"
  by (simp add: add_contextual_ctas_def Let_def split: option.splits)

lemma subseq_replace_first:
  "subseq old new \<Longrightarrow> subseq s (replace_first old new s)"
proof (induction s)
  case Nil
  then show ?case by simp
next
  case (Cons c cs)
  show ?case
  proof (cases "prefix old (c # cs)")
    case True
    then obtain rest where rest: "c # cs = old @ rest"
      by (auto simp: prefix_def)
    have "replace_first old new (c # cs) = new @ drop (length old) (c # cs)"
      using True by simp
    also have "drop (length old) (c # cs) = rest"
      unfolding rest by simp
    finally have "replace_first old new (c # cs) = new @ rest" .
    moreover have "subseq (old @ rest) (new @ rest)"
      using Cons.prems by simp
    ultimately show ?thesis unfolding rest by simp
  next
    case False
    with Cons show ?thesis by simp
  qed
qed

lemma subseq_add_personalization: "subseq response (add_personalization response ud)"
proof -
  have hi: "subseq ''Hi'' (''Hi '' @ name)" for name
    by (simp add: subseq_rev_drop_many [of "''Hi''" "''Hi''", simplified])
  have hello: "subseq ''Hello'' (''Hello '' @ name)" for name
    by (simp add: subseq_rev_drop_many [of "''Hello''" "''Hello''", simplified])
  have greet: "subseq response
                 (replace_first ''Hello'' (''Hello '' @ name)
                    (replace_first ''Hi'' (''Hi '' @ name) response))" for name
    using subseq_replace_first [OF hi] subseq_replace_first [OF hello]
    by (meson subseq_order.order_trans)
  have prepend: "subseq response (''Hi '' @ name @ ''! '' @ response)" for name
    by (metis append.assoc subseq_drop_many subseq_order.order_refl)
  have step1: "subseq response
     (if name \<noteq> [] \<and> \<not> sublist (lower name) (lower response)
      then (if prefix ''Hi'' response \<or> prefix ''Hello'' response
            then replace_first ''Hello'' (''Hello '' @ name)
                   (replace_first ''Hi'' (''Hi '' @ name) response)
            else ''Hi '' @ name @ ''! '' @ response)
      else response)" for name
    using greet prepend by simp
  have step2: "subseq a m \<Longrightarrow> subseq a (if P then m @ x else if Q then m @ y else m)"
    for a m x y :: string and P Q
    by (simp add: subseq_rev_drop_many)
  show ?thesis
  proof (cases ud)
    case None
    then show ?thesis by (simp add: add_personalization_def)
  next
    case (Some d)
    show ?thesis
    proof (cases "d = []")
      case True
      with Some show ?thesis by (simp add: add_personalization_def)
    next
      case False
      show ?thesis
        unfolding add_personalization_def Let_def Some option.case if_not_P [OF False]
        by (rule step2) (rule step1)
    qed
  qed
qed

text \<open>
  C6. The visible content of a reply is its characters other than whitespace. The final
  reply of \<open>enhance_response\<close> is at least as long as the visible content of the raw
  reply, and holds every one of these characters, in their order: the steps only add
  text, except the formatting step, which removes whitespace alone (runs of three or
  more newlines shrink to two, both ends are trimmed).
\<close>

theorem enhance_response_keeps_visible_content:
  "length (visible base_response) \<le> length (enhance_response cfg r base_response intents ud)
   \<and> subseq (visible base_response) (enhance_response cfg r base_response intents ud)"
proof -
  define p where "p = add_personalization base_response ud"
  define c where "c = add_contextual_ctas cfg r p intents ud"
  define b where "b = add_branding_elements cfg r c intents"
  have final: "enhance_response cfg r base_response intents ud = format_response b"
    by (simp add: enhance_response_def Let_def p_def c_def b_def)
  have "subseq base_response p"
    unfolding p_def by (rule subseq_add_personalization)
  moreover have "subseq p c"
    using add_contextual_ctas_appends [of cfg r p intents ud]
    by (auto simp: c_def intro: subseq_rev_drop_many)
  moreover have "subseq c b"
    using add_branding_elements_appends [of cfg r c intents]
    by (auto simp: b_def intro: subseq_rev_drop_many)
  ultimately have "subseq base_response b"
    by (meson subseq_order.order_trans)
  then have "subseq (visible base_response) (visible b)"
    unfolding visible_def by (rule subseq_filter)
  then have "subseq (visible base_response) (visible (format_response b))"
    by (simp add: visible_format_response)
  moreover have "subseq (visible (format_response b)) (format_response b)"
    unfolding visible_def by (rule subseq_filter_left)
  ultimately have emb: "subseq (visible base_response) (format_response b)"
    by (meson subseq_order.order_trans)
  then have "length (visible base_response) \<le> length (format_response b)"
    by (rule list_emb_length)
  with emb show ?thesis by (simp add: final)
qed

theorem enhance_response_keeps_visible_content_witness:
  "enhance_response example_config example_rnd
       ''  Hi there.\<newline>\<newline>\<newline>\<newline>- one\<newline>Bye  '' None None
     = ''Hi there.\<newline>\<newline>- one\<newline>Bye''
   \<and> visible ''  Hi there.\<newline>\<newline>\<newline>\<newline>- one\<newline>Bye  '' = ''Hithere.-oneBye''
   \<and> length (visible ''  Hi there.\<newline>\<newline>\<newline>\<newline>- one\<newline>Bye  '')
       \<le> length (enhance_response example_config example_rnd
                    ''  Hi there.\<newline>\<newline>\<newline>\<newline>- one\<newline>Bye  '' None None)
   \<and> subseq (visible ''  Hi there.\<newline>\<newline>\<newline>\<newline>- one\<newline>Bye  '')
        (enhance_response example_config example_rnd
           ''  Hi there.\<newline>\<newline>\<newline>\<newline>- one\<newline>Bye  '' None None)"
proof -
  have run: "enhance_response example_config example_rnd
       ''  Hi there.\<newline>\<newline>\<newline>\<newline>- one\<newline>Bye  '' None None
     = ''Hi there.\<newline>\<newline>- one\<newline>Bye''"
    by code_simp
  have vis: "visible ''  Hi there.\<newline>\<newline>\<newline>\<newline>- one\<newline>Bye  '' = ''Hithere.-oneBye''"
    by code_simp
  note kept = enhance_response_keeps_visible_content
     [of "''  Hi there.\<newline>\<newline>\<newline>\<newline>- one\<newline>Bye  ''" example_config example_rnd None None]
  show ?thesis
    using run vis kept [THEN conjunct1] kept [THEN conjunct2] by (intro conjI)
qed

text \<open>
  C5. \<open>build_professional_prompt\<close> is a function of the configuration and its three
  arguments: it takes no random draw, clock or memory. It reads the user profile at
  fixed keys in a fixed order, so two profiles that are equal as dictionaries, in
  whatever order their keys were inserted, give the same prompt, character for character.
\<close>

theorem build_professional_prompt_deterministic:
  assumes "rel_option (\<lambda>d1 d2. map_of d1 = map_of d2) ud1 ud2"
  shows "build_professional_prompt cfg format_2f user_question ud1 intents
           = build_professional_prompt cfg format_2f user_question ud2 intents"
proof (cases ud1)
  case None
  then have "ud2 = None" using assms by (cases ud2) simp_all
  with None show ?thesis by simp
next
  case (Some d1)
  then obtain d2 where d2: "ud2 = Some d2" and same: "map_of d1 = map_of d2"
    using assms by (cases ud2) simp_all
  have get: "dict_get d1 k = dict_get d2 k" for k
    by (simp add: dict_get_def same)
  have ctx: "build_user_context d1 = build_user_context d2"
    by (simp only: build_user_context_def get)
  have empty: "d1 = [] \<longleftrightarrow> d2 = []"
    using same by (metis map_of_eq_empty_iff)
  show ?thesis
    by (simp only: build_professional_prompt_def Some d2 option.case ctx empty)
qed

theorem build_professional_prompt_deterministic_witness:
  "map_of [(''name'', ''Asha''), (''email'', ''asha@example.org'')]
     = map_of [(''email'', ''asha@example.org''), (''name'', ''Asha'')]
   \<and> build_professional_prompt example_config example_format ''Do you hire?''
         (Some [(''name'', ''Asha''), (''email'', ''asha@example.org'')])
         (Some career_then_service)
       = build_professional_prompt example_config example_format ''Do you hire?''
         (Some [(''email'', ''asha@example.org''), (''name'', ''Asha'')])
         (Some career_then_service)"
proof -
  have same: "map_of [(''name'', ''Asha''), (''email'', ''asha@example.org'')]
     = map_of [(''email'', ''asha@example.org''), (''name'', ''Asha'')]"
    by (auto simp: fun_eq_iff)
  then have "rel_option (\<lambda>d1 d2. map_of d1 = map_of d2)
               (Some [(''name'', ''Asha''), (''email'', ''asha@example.org'')])
               (Some [(''email'', ''asha@example.org''), (''name'', ''Asha'')])"
    by (simp only: option.rel_inject)
  from build_professional_prompt_deterministic [OF this] same
  show ?thesis by (intro conjI)
qed

end
